theory Spec2Isabelle
  imports Main "HOL-Library.Sublist"
begin


section \<open>The CI workflow (pytest.yml)\<close>

subsection \<open>The workflow file as a YAML tree\<close>

text \<open>
  The workflow is declarative YAML. It is transcribed node by node: a plain (unquoted)
  scalar, a quoted scalar, a literal block scalar (\<^verbatim>\<open>|\<close>, one string per line), a
  sequence, and a mapping with its keys in file order. YAML comments are not part of
  the tree.
\<close>

datatype yaml =
    Plain string
  | Quoted string
  | Block "string list"
  | Seq "yaml list"
  | Map "(string \<times> yaml) list"

definition get :: "string \<Rightarrow> yaml \<Rightarrow> yaml option" where
  "get k y = (case y of Map kvs \<Rightarrow> map_of kvs k | _ \<Rightarrow> None)"

fun get_path :: "string list \<Rightarrow> yaml \<Rightarrow> yaml option" where
  "get_path [] y = Some y"
| "get_path (k # ks) y = (case get k y of None \<Rightarrow> None | Some y' \<Rightarrow> get_path ks y')"

definition items :: "yaml option \<Rightarrow> yaml list" where
  "items y = (case y of Some (Seq ys) \<Rightarrow> ys | _ \<Rightarrow> [])"

definition entries :: "yaml option \<Rightarrow> (string \<times> yaml) list" where
  "entries y = (case y of Some (Map kvs) \<Rightarrow> kvs | _ \<Rightarrow> [])"

definition scalar :: "yaml option \<Rightarrow> string option" where
  "scalar y = (case y of Some (Plain s) \<Rightarrow> Some s | Some (Quoted s) \<Rightarrow> Some s | _ \<Rightarrow> None)"

definition script :: "yaml option \<Rightarrow> string list" where
  "script y = (case y of Some (Plain s) \<Rightarrow> [s] | Some (Quoted s) \<Rightarrow> [s]
                 | Some (Block ls) \<Rightarrow> ls | _ \<Rightarrow> [])"

text \<open>The steps of job \<^verbatim>\<open>pytest\<close>, lines 48 to 168 of the file, one definition each.\<close>

definition step_checkout_ixmp :: yaml where
  "step_checkout_ixmp = Map
    [(''name'', Plain ''Check out ixmp''),
     (''uses'', Plain ''actions/checkout@v2''),
     (''with'', Map
        [(''repository'', Plain ''iiasa/ixmp''),
         (''path'', Plain ''ixmp''),
         (''fetch-depth'', Plain ''${{ env.depth }}'')])]"

definition step_checkout_message_ix :: yaml where
  "step_checkout_message_ix = Map
    [(''name'', Plain ''Check out message_ix''),
     (''uses'', Plain ''actions/checkout@v2''),
     (''with'', Map
        [(''path'', Plain ''message_ix''),
         (''fetch-depth'', Plain ''${{ env.depth }}'')])]"

definition step_fetch_tags :: yaml where
  "step_fetch_tags = Map
    [(''name'', Plain ''Fetch tags (for setuptools-scm)''),
     (''run'', Block
        [''(cd ixmp; git fetch --tags --depth=${{ env.depth }})'',
         ''(cd message_ix; git fetch --tags --depth=${{ env.depth }})'']),
     (''shell'', Plain ''bash'')]"

definition step_setup_python :: yaml where
  "step_setup_python = Map
    [(''uses'', Plain ''actions/setup-python@v2''),
     (''with'', Map [(''python-version'', Plain ''${{ matrix.python-version }}'')])]"

definition step_reticulate :: yaml where
  "step_reticulate = Map
    [(''name'', Plain ''Set RETICULATE_PYTHON''),
     (''run'', Plain ''echo \"RETICULATE_PYTHON=$pythonLocation\" >> $GITHUB_ENV''),
     (''shell'', Plain ''bash'')]"

definition step_setup_r :: yaml where
  "step_setup_r = Map [(''uses'', Plain ''r-lib/actions/setup-r@master'')]"

definition step_openjdk :: yaml where
  "step_openjdk = Map
    [(''name'', Plain ''Use OpenJDK 14 (macOS only)''),
     (''if'', Plain ''${{ startsWith(matrix.os, 'macos') }}''),
     (''uses'', Plain ''actions/setup-java@v1''),
     (''with'', Map [(''java-version'', Quoted ''14'')])]"

definition step_cache :: yaml where
  "step_cache = Map
    [(''name'', Plain ''Cache GAMS installer, Python packages, and R packages''),
     (''uses'', Plain ''actions/cache@v2''),
     (''with'', Map
        [(''path'', Block
            [''gams'',
             ''~/.cache/pip'',
             ''~/Library/Caches/pip'',
             ''~/appdata/local/pip/cache'',
             ''${{ env.R_LIBS_USER }}'']),
         (''key'', Plain
            ''${{ matrix.os }}-gams${{ env.GAMS_VERSION }}-py${{ matrix.python-version }}''),
         (''restore-keys'', Block
            [''${{ matrix.os }}-gams${{ env.GAMS_VERSION }}-'',
             ''${{ matrix.os }}-''])])]"

definition step_install_gams :: yaml where
  "step_install_gams = Map
    [(''name'', Plain ''Install GAMS and Graphviz''),
     (''env'', Map [(''CI_OS'', Plain ''${{ matrix.os }}'')]),
     (''run'', Block
        [''ixmp/ci/install-gams.sh'',
         ''ixmp/ci/install-graphviz.sh'']),
     (''shell'', Plain ''bash'')]"

definition step_check_gams :: yaml where
  "step_check_gams = Map
    [(''name'', Plain ''Check GAMS''),
     (''run'', Plain ''gams''),
     (''shell'', Plain ''bash'')]"

definition step_upgrade_pip :: yaml where
  "step_upgrade_pip = Map
    [(''name'', Plain ''Upgrade pip, wheel, setuptools-scm''),
     (''run'', Plain ''python -m pip install --upgrade pip wheel setuptools-scm'')]"

definition step_install_ixmp :: yaml where
  "step_install_ixmp = Map
    [(''name'', Plain ''Install ixmp and dependencies''),
     (''working-directory'', Plain ''ixmp''),
     (''run'', Plain ''pip install .'')]"

definition step_install_message_ix :: yaml where
  "step_install_message_ix = Map
    [(''name'', Plain ''Install Python package and dependencies''),
     (''working-directory'', Plain ''message_ix''),
     (''run'', Plain ''pip install .[docs,reporting,tests,tutorial]'')]"

definition step_install_r :: yaml where
  "step_install_r = Map
    [(''name'', Plain ''Install R package, dependencies, and tutorial requirements''),
     (''run'', Block
        [''install.packages(\"remotes\")'',
         ''remotes::install_cran(c(\"rcmdcheck\", \"dplyr\", \"IRkernel\"))'',
         ''remotes::install_deps(\"rmessageix\", dependencies = TRUE)'',
         '''',
         ''# For R tutorial notebooks, run via the pytest suite: set up R kernel;'',
         ''# actually install the R package'',
         ''IRkernel::installspec()'',
         ''remotes::install_local(\"rmessageix\")'']),
     (''working-directory'', Plain ''message_ix''),
     (''shell'', Plain ''Rscript {0}'')]"

definition step_pytest :: yaml where
  "step_pytest = Map
    [(''name'', Plain ''Run test suite using pytest''),
     (''working-directory'', Plain ''message_ix''),
     (''run'', Plain
        ''pytest message_ix -m \"not nightly\" --verbose --cov-report=xml --color=yes'')]"

definition step_r_cmd_check :: yaml where
  "step_r_cmd_check = Map
    [(''name'', Plain ''Run R CMD check''),
     (''run'', Block
        [''rcmdcheck::rcmdcheck('',
         ''  \"rmessageix\",'',
         ''  args = c(\"--no-manual\", \"--as-cran\", \"--no-multiarch\"),'',
         ''  error_on = \"warning\",'',
         ''  check_dir = \"check\"'',
         '')'']),
     (''working-directory'', Plain ''message_ix''),
     (''shell'', Plain ''Rscript {0}'')]"

definition step_codecov :: yaml where
  "step_codecov = Map
    [(''name'', Plain ''Upload test coverage to Codecov.io''),
     (''run'', Block
        [''curl -o codecov.sh https://codecov.io/bash'',
         ''chmod +x codecov.sh'',
         ''./codecov.sh'']),
     (''working-directory'', Plain ''message_ix''),
     (''shell'', Plain ''bash'')]"

definition job_pytest :: yaml where
  "job_pytest = Map
    [(''strategy'', Map
        [(''matrix'', Map
            [(''os'', Seq [Plain ''macos-latest'', Plain ''ubuntu-latest'',
                           Plain ''windows-latest'']),
             (''python-version'', Seq [Quoted ''3.6'', Quoted ''3.8'']),
             (''exclude'', Seq
                [Map [(''os'', Plain ''windows-latest''),
                      (''python-version'', Quoted ''3.6'')]])]),
         (''fail-fast'', Plain ''false'')]),
     (''runs-on'', Plain ''${{ matrix.os }}''),
     (''name'', Plain ''${{ matrix.os }}-py${{ matrix.python-version }}''),
     (''steps'', Seq
        [step_checkout_ixmp, step_checkout_message_ix, step_fetch_tags,
         step_setup_python, step_reticulate, step_setup_r, step_openjdk, step_cache,
         step_install_gams, step_check_gams, step_upgrade_pip, step_install_ixmp,
         step_install_message_ix, step_install_r, step_pytest, step_r_cmd_check,
         step_codecov])]"

definition workflow :: yaml where
  "workflow = Map
    [(''name'', Plain ''pytest''),
     (''on'', Map
        [(''push'', Map [(''branches'', Seq [Plain ''master''])]),
         (''pull_request'', Map [(''branches'', Seq [Plain ''master''])])]),
     (''env'', Map
        [(''GAMS_VERSION'', Plain ''25.1.1''),
         (''depth'', Plain ''100'')]),
     (''jobs'', Map [(''pytest'', job_pytest)])]"

subsection \<open>What the runner does with the file\<close>

text \<open>
  The file is configuration: what it means is fixed by GitHub Actions, which is not part
  of the repository. The definitions below state the documented behaviour of the runner
  that the workflow relies on: expansion of a strategy matrix with \<^verbatim>\<open>exclude\<close>,
  substitution of \<^verbatim>\<open>${{ ... }}\<close> expressions, sequential execution of steps with
  the implicit \<^verbatim>\<open>success()\<close> condition, \<^verbatim>\<open>continue-on-error\<close>, and
  \<^verbatim>\<open>fail-fast\<close>.
\<close>

type_synonym combo = "(string \<times> yaml) list"

definition matrix :: "yaml \<Rightarrow> (string \<times> yaml) list" where
  "matrix job = entries (get_path [''strategy'', ''matrix''] job)"

definition axes :: "yaml \<Rightarrow> (string \<times> yaml list) list" where
  "axes job = map (\<lambda>(k, v). (k, items (Some v)))
     (filter (\<lambda>(k, v). k \<noteq> ''include'' \<and> k \<noteq> ''exclude'') (matrix job))"

definition excludes :: "yaml \<Rightarrow> combo list" where
  "excludes job = map (\<lambda>e. entries (Some e)) (items (map_of (matrix job) ''exclude''))"

text \<open>Every combination of one value per axis, the first axis varying slowest.\<close>

fun combos :: "(string \<times> yaml list) list \<Rightarrow> combo list" where
  "combos [] = [[]]"
| "combos ((k, vs) # rest) = concat (map (\<lambda>v. map (\<lambda>c. (k, v) # c) (combos rest)) vs)"

text \<open>An \<^verbatim>\<open>exclude\<close> entry removes every combination that agrees with all its keys.\<close>

definition matches :: "combo \<Rightarrow> combo \<Rightarrow> bool" where
  "matches ex c = list_all (\<lambda>(k, v). map_of c k = Some v) ex"

definition matrix_jobs :: "yaml \<Rightarrow> combo list" where
  "matrix_jobs job =
     filter (\<lambda>c. \<not> list_ex (\<lambda>ex. matches ex c) (excludes job)) (combos (axes job))"

text \<open>\<^verbatim>\<open>fail-fast\<close> defaults to true when the key is absent.\<close>

definition fail_fast :: "yaml \<Rightarrow> bool" where
  "fail_fast job = (scalar (get_path [''strategy'', ''fail-fast''] job) \<noteq> Some ''false'')"

datatype job_outcome = JSuccess | JFailure | JCancelled

text \<open>
  The jobs of a matrix, in the order in which they finish. With \<^verbatim>\<open>fail-fast\<close> the
  first failure cancels every job that has not finished; without it every job runs to
  its own conclusion.
\<close>

fun run_matrix :: "bool \<Rightarrow> ('j \<Rightarrow> bool) \<Rightarrow> 'j list \<Rightarrow> job_outcome list" where
  "run_matrix ff passes [] = []"
| "run_matrix ff passes (j # js) =
     (if passes j then JSuccess # run_matrix ff passes js
      else JFailure # (if ff then map (\<lambda>_. JCancelled) js else run_matrix ff passes js))"

text \<open>
  Expression substitution in a string: each \<^verbatim>\<open>${{ e }}\<close> is replaced by the value of
  \<open>e\<close> in the context; the second argument holds the expression text read so far.
\<close>

definition trim :: "string \<Rightarrow> string" where
  "trim s = rev (dropWhile (\<lambda>c. c = CHR '' '') (rev (dropWhile (\<lambda>c. c = CHR '' '') s)))"

fun expand :: "(string \<Rightarrow> string) \<Rightarrow> string option \<Rightarrow> string \<Rightarrow> string" where
  "expand ctx None [] = []"
| "expand ctx None (c # cs) =
     (if take 3 (c # cs) = ''${{'' then expand ctx (Some []) (drop 2 cs)
      else c # expand ctx None cs)"
| "expand ctx (Some e) [] = ''${{'' @ e"
| "expand ctx (Some e) (c # cs) =
     (if take 2 (c # cs) = ''}}'' then ctx (trim e) @ expand ctx None (drop 1 cs)
      else expand ctx (Some (e @ [c])) cs)"

definition strip_prefix :: "string \<Rightarrow> string \<Rightarrow> string option" where
  "strip_prefix p s = (if prefix p s then Some (drop (length p) s) else None)"

text \<open>
  The context of a matrix job: \<^verbatim>\<open>env.X\<close> is read from the workflow-level
  \<^verbatim>\<open>env\<close> mapping, \<^verbatim>\<open>matrix.X\<close> from the job's combination; a name that is
  not defined gives the empty string.
\<close>

definition job_context :: "yaml \<Rightarrow> combo \<Rightarrow> string \<Rightarrow> string" where
  "job_context w c e =
     (case strip_prefix ''env.'' e of
        Some x \<Rightarrow> (case scalar (get_path [''env'', x] w) of Some v \<Rightarrow> v | None \<Rightarrow> [])
      | None \<Rightarrow>
         (case strip_prefix ''matrix.'' e of
            Some x \<Rightarrow> (case scalar (map_of c x) of Some v \<Rightarrow> v | None \<Rightarrow> [])
          | None \<Rightarrow> []))"

definition subst :: "yaml \<Rightarrow> combo \<Rightarrow> string \<Rightarrow> string" where
  "subst w c s = expand (job_context w c) None s"

text \<open>
  Steps run one after the other. A step with no \<^verbatim>\<open>if\<close>, or whose \<^verbatim>\<open>if\<close> calls
  none of the status functions, runs only while every earlier step has succeeded (the
  implicit \<^verbatim>\<open>success()\<close>); a failed step fails the job unless it sets
  \<^verbatim>\<open>continue-on-error: true\<close>. The truth of an \<^verbatim>\<open>if\<close> expression and the exit
  status of a step are parameters: \<open>cond ok e\<close> and \<open>exit0 s\<close>.
\<close>

datatype outcome = Success | Failure | Skipped

fun contains :: "string \<Rightarrow> string \<Rightarrow> bool" where
  "contains p [] = (p = [])"
| "contains p (c # cs) = (prefix p (c # cs) \<or> contains p cs)"

definition status_check :: "string \<Rightarrow> bool" where
  "status_check e = list_ex (\<lambda>f. contains f e)
     [''success()'', ''always()'', ''cancelled()'', ''failure()'']"

definition continue_on_error :: "yaml \<Rightarrow> bool" where
  "continue_on_error s = (scalar (get ''continue-on-error'' s) = Some ''true'')"

definition enabled :: "(bool \<Rightarrow> string \<Rightarrow> bool) \<Rightarrow> bool \<Rightarrow> yaml \<Rightarrow> bool" where
  "enabled cond ok s =
     (case scalar (get ''if'' s) of
        None \<Rightarrow> ok
      | Some e \<Rightarrow> if status_check e then cond ok e else ok \<and> cond ok e)"

fun run_steps :: "(bool \<Rightarrow> string \<Rightarrow> bool) \<Rightarrow> (yaml \<Rightarrow> bool) \<Rightarrow> bool \<Rightarrow> yaml list
    \<Rightarrow> outcome list" where
  "run_steps cond exit0 ok [] = []"
| "run_steps cond exit0 ok (s # ss) =
     (if enabled cond ok s then
        (if exit0 s then Success # run_steps cond exit0 ok ss
         else Failure # run_steps cond exit0 (ok \<and> continue_on_error s) ss)
      else Skipped # run_steps cond exit0 ok ss)"

text \<open>The job fails when a step failed that does not continue on error.\<close>

definition job_failed :: "outcome list \<Rightarrow> yaml list \<Rightarrow> bool" where
  "job_failed os ss =
     list_ex (\<lambda>(out, s). out = Failure \<and> \<not> continue_on_error s) (zip os ss)"

definition steps :: "yaml \<Rightarrow> yaml list" where
  "steps job = items (get ''steps'' job)"


definition the_job :: yaml where
  "the_job = (case get_path [''jobs'', ''pytest''] workflow of Some j \<Rightarrow> j | None \<Rightarrow> Map [])"

subsection \<open>Notions used to state the properties\<close>

text \<open>
  A step masks no failure when it does not continue on error and its \<^verbatim>\<open>if\<close>, if
  any, calls no status function (so the implicit \<^verbatim>\<open>success()\<close> applies to it).
\<close>

definition unmasked :: "yaml \<Rightarrow> bool" where
  "unmasked s = (\<not> continue_on_error s \<and>
     (case scalar (get ''if'' s) of None \<Rightarrow> True | Some e \<Rightarrow> \<not> status_check e))"

text \<open>The pairs of an operating system and a Python version, as matrix combinations.\<close>

definition all_pairs :: "string list \<Rightarrow> string list \<Rightarrow> combo list" where
  "all_pairs oss pys =
     concat (map (\<lambda>os. map (\<lambda>py. [(''os'', Plain os), (''python-version'', Quoted py)]) pys) oss)"





section \<open>The notebook westeros_fossil_resource.ipynb\<close>

subsection \<open>Python values, dicts and data frames\<close>

text \<open>
  The values the notebook puts into its tables are strings and integers. A dict keeps
  its keys in insertion order; a value of the dict handed to \<^verbatim>\<open>pd.DataFrame\<close> is a
  scalar or list-like. A frame is its columns, in order, each with one value per row.
\<close>

datatype pyval = PStr string | PInt int

datatype field = Scalar pyval | ListLike "pyval list"

type_synonym pydict = "(string \<times> field) list"

type_synonym frame = "(string \<times> pyval list) list"

text \<open>
  Exceptions. The notebook defines none: a run ends with an exception of the platform
  (of a type \<open>'e\<close> the platform chooses) or with one that Python or pandas raises.
\<close>

datatype pyerr = KeyError string | IndexError | ValueError | TypeError | AttributeError

datatype 'e exn = PlatformError 'e | PyError pyerr

definition rbind :: "pyerr + 'a \<Rightarrow> ('a \<Rightarrow> pyerr + 'b) \<Rightarrow> pyerr + 'b" where
  "rbind r f = (case r of Inl e \<Rightarrow> Inl e | Inr a \<Rightarrow> f a)"

text \<open>\<^verbatim>\<open>d[k]\<close> and \<^verbatim>\<open>xs[i]\<close> (for an index that is not negative).\<close>

definition dict_get :: "(string \<times> 'v) list \<Rightarrow> string \<Rightarrow> pyerr + 'v" where
  "dict_get d k = (case map_of d k of None \<Rightarrow> Inl (KeyError k) | Some v \<Rightarrow> Inr v)"

definition list_get :: "'a list \<Rightarrow> nat \<Rightarrow> pyerr + 'a" where
  "list_get xs i = (if i < length xs then Inr (xs ! i) else Inl IndexError)"

text \<open>
  \<^verbatim>\<open>d[k] = v\<close>: a key that is present keeps its place, a new key goes last.
  \<^verbatim>\<open>d.update(**kws)\<close> assigns the keywords from left to right.
\<close>

fun dict_set :: "string \<Rightarrow> 'v \<Rightarrow> (string \<times> 'v) list \<Rightarrow> (string \<times> 'v) list" where
  "dict_set k v [] = [(k, v)]"
| "dict_set k v ((k', v') # d) = (if k' = k then (k, v) # d else (k', v') # dict_set k v d)"

definition dict_update :: "(string \<times> 'v) list \<Rightarrow> (string \<times> 'v) list \<Rightarrow> (string \<times> 'v) list" where
  "dict_update d kws = foldl (\<lambda>d' (k, v). dict_set k v d') d kws"

text \<open>
  \<^verbatim>\<open>pd.DataFrame(d)\<close> for a dict of scalars and list-likes (pandas, not part of the
  repository): the columns are the keys in order, every scalar is repeated for each
  row; it raises ValueError when no value is list-like or two list-likes differ in
  length.
\<close>

definition lengths :: "pydict \<Rightarrow> nat list" where
  "lengths d = List.map_filter
     (\<lambda>(k, f). case f of Scalar v \<Rightarrow> None | ListLike xs \<Rightarrow> Some (length xs)) d"

definition broadcast :: "nat \<Rightarrow> field \<Rightarrow> pyval list" where
  "broadcast n f = (case f of Scalar v \<Rightarrow> replicate n v | ListLike xs \<Rightarrow> xs)"

definition DataFrame :: "pydict \<Rightarrow> pyerr + frame" where
  "DataFrame d =
     (case lengths d of
        [] \<Rightarrow> Inl ValueError
      | n # ns \<Rightarrow>
          if list_all (\<lambda>m. m = n) ns then Inr (map (\<lambda>(k, f). (k, broadcast n f)) d)
          else Inl ValueError)"

text \<open>Modelled from the spec: \<^verbatim>\<open>message_ix.utils.make_df\<close>, which the notebook
  imports and calls but which is not among the sources. Its keyword arguments override
  the fields of the base dict, the remaining fields are taken unchanged, and the result
  is the frame of the combined dict.\<close>

definition make_df :: "pydict \<Rightarrow> pydict \<Rightarrow> pyerr + frame" where
  "make_df base kwargs = DataFrame (dict_update base kwargs)"

subsection \<open>Calls into the platform\<close>

text \<open>
  The objects the notebook holds, by the variable that names them: \<^verbatim>\<open>mp\<close>,
  \<^verbatim>\<open>base\<close>, \<^verbatim>\<open>scen\<close>, \<^verbatim>\<open>b\<close> and \<^verbatim>\<open>p\<close>. A call names the object it is
  made on (or, for a constructor, the object it is given) and its arguments.
\<close>

datatype obj = Mp | Base | Scen | B | P

datatype keys = Key string | Keys "string list"

datatype call =
    Platform_init
  | Scenario_init obj string string
  | Clone obj string string string bool
  | Check_out obj
  | Add_set obj string keys
  | Vintage_and_active_years obj
  | Set_get obj string
  | Add_par obj string frame
  | Commit obj string
  | Set_as_default obj
  | Solve obj
  | Var obj string
  | Plots_init obj string int
  | Plot_activity obj bool "string list"
  | Plot_capacity obj bool "string list"
  | Plot_prices obj "string list" bool
  | Plot_fossil_supply_curve obj
  | Plot_extraction obj "string list" bool bool
  | Close_db obj

text \<open>What a call returns, as far as the notebook looks at it.\<close>

datatype reply = RNone | RFrame frame | RSeries "pyval list" | RDict "(string \<times> pyval) list"

text \<open>
  The platform (ixmp, message_ix and the plotting helper behind them) is not part of
  the notebook: it is a parameter, a function from a call and the platform's state to
  an exception or a reply, and the next state.
\<close>

type_synonym ('s, 'e) platform = "call \<Rightarrow> 's \<Rightarrow> ('e + reply) \<times> 's"

text \<open>
  The state of a run: the state of the platform, and the calls made so far, each with
  the exception it raised, if any.
\<close>

record ('s, 'e) kstate =
  plat :: 's
  log :: "(call \<times> 'e option) list"

type_synonym ('s, 'e, 'a) prog = "('s, 'e) kstate \<Rightarrow> ('e exn + 'a) \<times> ('s, 'e) kstate"

definition start :: "'s \<Rightarrow> ('s, 'e) kstate" where
  "start s = \<lparr>plat = s, log = []\<rparr>"

definition ret :: "'a \<Rightarrow> ('s, 'e, 'a) prog" where
  "ret a = (\<lambda>k. (Inr a, k))"

text \<open>A computation of Python or pandas: it raises or gives a value, and calls nothing.\<close>

definition lift :: "pyerr + 'a \<Rightarrow> ('s, 'e, 'a) prog" where
  "lift r = (\<lambda>k. (case r of Inl e \<Rightarrow> Inl (PyError e) | Inr a \<Rightarrow> Inr a, k))"

text \<open>
  One statement after the other: an exception of the first ends the run there. The
  notebook has no \<^verbatim>\<open>try\<close>, so there is no other way to combine statements.
\<close>

definition pbind :: "('s, 'e, 'a) prog \<Rightarrow> ('a \<Rightarrow> ('s, 'e, 'b) prog) \<Rightarrow> ('s, 'e, 'b) prog" where
  "pbind m f = (\<lambda>k. case m k of (Inl e, k') \<Rightarrow> (Inl e, k') | (Inr a, k') \<Rightarrow> f a k')"

definition pthen :: "('s, 'e, 'a) prog \<Rightarrow> ('s, 'e, 'b) prog \<Rightarrow> ('s, 'e, 'b) prog" where
  "pthen m n = pbind m (\<lambda>_. n)"

definition invoke :: "('s, 'e) platform \<Rightarrow> call \<Rightarrow> ('s, 'e, reply) prog" where
  "invoke pf c = (\<lambda>k.
     case pf c (plat k) of
       (Inl e, s') \<Rightarrow> (Inl (PlatformError e), \<lparr>plat = s', log = log k @ [(c, Some e)]\<rparr>)
     | (Inr v, s') \<Rightarrow> (Inr v, \<lparr>plat = s', log = log k @ [(c, None)]\<rparr>))"

text \<open>\<^verbatim>\<open>for x in xs: body\<close>\<close>

fun for_each :: "'a list \<Rightarrow> ('a \<Rightarrow> ('s, 'e, 'b) prog) \<Rightarrow> ('s, 'e, unit) prog" where
  "for_each [] body = ret ()"
| "for_each (x # xs) body = pthen (body x) (for_each xs body)"

text \<open>
  What the notebook does with a reply: a column of a frame (\<^verbatim>\<open>year_df['year_vtg']\<close>),
  the values of a series (\<^verbatim>\<open>model_horizon.values.tolist()\<close>), an item of a dict
  (\<^verbatim>\<open>scen.var('OBJ')['lvl']\<close>).
\<close>

definition column :: "reply \<Rightarrow> string \<Rightarrow> pyerr + pyval list" where
  "column r k = (case r of RFrame f \<Rightarrow> dict_get f k | _ \<Rightarrow> Inl TypeError)"

definition tolist :: "reply \<Rightarrow> pyerr + pyval list" where
  "tolist r = (case r of RSeries xs \<Rightarrow> Inr xs | _ \<Rightarrow> Inl AttributeError)"

definition item :: "reply \<Rightarrow> string \<Rightarrow> pyerr + pyval" where
  "item r k = (case r of RDict d \<Rightarrow> dict_get d k | _ \<Rightarrow> Inl TypeError)"

subsection \<open>The code cells\<close>

text \<open>
  Cells are numbered as in the file, from 0, markdown cells included. Cell 1 imports
  pandas, ixmp, message_ix and \<^verbatim>\<open>make_df\<close> and calls nothing.
\<close>

text \<open>Cell 2: \<^verbatim>\<open>mp = ixmp.Platform()\<close>\<close>

definition cell2 :: "('s, 'e) platform \<Rightarrow> ('s, 'e, reply) prog" where
  "cell2 pf = invoke pf Platform_init"

text \<open>Cell 4: the scenario \<^verbatim>\<open>base\<close> and its clone \<^verbatim>\<open>scen\<close>.\<close>

definition model :: string where
  "model = ''Westeros Electrified''"

definition cell4 :: "('s, 'e) platform \<Rightarrow> ('s, 'e, reply) prog" where
  "cell4 pf =
     pthen (invoke pf (Scenario_init Mp model ''baseline''))
    (pthen (invoke pf (Clone Base model ''fossil_resources''
                         ''illustration of adding fossil resources'' False))
           (invoke pf (Check_out Scen)))"

text \<open>Cell 7: the sets.\<close>

definition commodity :: string where
  "commodity = ''coal''"

definition level :: string where
  "level = ''resource''"

definition cell7 :: "('s, 'e) platform \<Rightarrow> ('s, 'e, reply) prog" where
  "cell7 pf =
     pthen (invoke pf (Add_set Scen ''commodity'' (Key commodity)))
    (pthen (invoke pf (Add_set Scen ''level'' (Key level)))
    (pthen (invoke pf (Add_set Scen ''level_resource'' (Key level)))
           (invoke pf (Add_set Scen ''grade'' (Keys [''a'', ''b''])))))"

text \<open>
  Cell 9: the model periods. It binds \<^verbatim>\<open>vintage_years\<close>, \<^verbatim>\<open>act_years\<close> and
  \<^verbatim>\<open>model_horizon\<close>, which later cells read.
\<close>

definition country :: string where
  "country = ''Westeros''"

definition cell9 :: "('s, 'e) platform \<Rightarrow> ('s, 'e, pyval list \<times> pyval list \<times> reply) prog" where
  "cell9 pf =
     pbind (invoke pf (Vintage_and_active_years Scen)) (\<lambda>year_df.
     pbind (lift (column year_df ''year_vtg'')) (\<lambda>vintage_years.
     pbind (lift (column year_df ''year_act'')) (\<lambda>act_years.
     pbind (invoke pf (Set_get Scen ''year'')) (\<lambda>model_horizon.
     ret (vintage_years, act_years, model_horizon)))))"

text \<open>Cell 10: potential, cost and historical extraction of each grade.\<close>

definition potentials :: "(string \<times> int list) list" where
  "potentials = [(''a'', [1500, 10, 280]), (''b'', [3500, 52, 0])]"

text \<open>Cell 11: three parameters for each grade. \<^verbatim>\<open>potentials[grade][i]\<close> first.\<close>

definition potential :: "string \<Rightarrow> nat \<Rightarrow> pyerr + int" where
  "potential grade i = rbind (dict_get potentials grade) (\<lambda>p. list_get p i)"

definition resource_volume_df :: "string \<Rightarrow> pyerr + frame" where
  "resource_volume_df grade =
     rbind (potential grade 0) (\<lambda>v.
     DataFrame [(''node'', ListLike [PStr country]),
                (''commodity'', Scalar (PStr commodity)),
                (''grade'', Scalar (PStr grade)),
                (''value'', Scalar (PInt v)),
                (''unit'', Scalar (PStr ''GWa''))])"

definition resource_cost_df :: "reply \<Rightarrow> string \<Rightarrow> pyerr + frame" where
  "resource_cost_df model_horizon grade =
     rbind (tolist model_horizon) (\<lambda>years.
     rbind (potential grade 1) (\<lambda>v.
     DataFrame [(''node'', Scalar (PStr country)),
                (''commodity'', Scalar (PStr commodity)),
                (''grade'', Scalar (PStr grade)),
                (''year'', ListLike years),
                (''value'', Scalar (PInt v)),
                (''unit'', Scalar (PStr ''USD/kWa''))]))"

definition historical_extraction_df :: "string \<Rightarrow> pyerr + frame" where
  "historical_extraction_df grade =
     rbind (potential grade 2) (\<lambda>v.
     DataFrame [(''node'', Scalar (PStr country)),
                (''commodity'', Scalar (PStr commodity)),
                (''grade'', Scalar (PStr grade)),
                (''year'', ListLike [PInt 690]),
                (''value'', Scalar (PInt v)),
                (''unit'', Scalar (PStr ''GWa''))])"

definition cell11 :: "('s, 'e) platform \<Rightarrow> reply \<Rightarrow> ('s, 'e, unit) prog" where
  "cell11 pf model_horizon =
     for_each (map fst potentials) (\<lambda>grade.
       pbind (lift (resource_volume_df grade)) (\<lambda>df.
       pthen (invoke pf (Add_par Scen ''resource_volume'' df))
      (pbind (lift (resource_cost_df model_horizon grade)) (\<lambda>df.
       pthen (invoke pf (Add_par Scen ''resource_cost'' df))
      (pbind (lift (historical_extraction_df grade)) (\<lambda>df.
       invoke pf (Add_par Scen ''historical_extraction'' df)))))))"

text \<open>Cell 13: the \<^verbatim>\<open>input\<close> of \<^verbatim>\<open>coal_ppl\<close>.\<close>

definition base_input :: "pyval list \<Rightarrow> pyval list \<Rightarrow> pydict" where
  "base_input vintage_years act_years =
     [(''node_loc'', Scalar (PStr country)),
      (''year_vtg'', ListLike vintage_years),
      (''year_act'', ListLike act_years),
      (''mode'', Scalar (PStr ''standard'')),
      (''node_origin'', Scalar (PStr country)),
      (''commodity'', Scalar (PStr ''electricity'')),
      (''time'', Scalar (PStr ''year'')),
      (''time_origin'', Scalar (PStr ''year''))]"

definition input_df :: "pyval list \<Rightarrow> pyval list \<Rightarrow> pyerr + frame" where
  "input_df vintage_years act_years =
     make_df (base_input vintage_years act_years)
       [(''technology'', Scalar (PStr ''coal_ppl'')),
        (''commodity'', Scalar (PStr ''coal'')),
        (''level'', Scalar (PStr ''resource'')),
        (''value'', Scalar (PInt 1)),
        (''unit'', Scalar (PStr ''%''))]"

definition cell13 :: "('s, 'e) platform \<Rightarrow> pyval list \<Rightarrow> pyval list \<Rightarrow> ('s, 'e, reply) prog" where
  "cell13 pf vintage_years act_years =
     pbind (lift (input_df vintage_years act_years)) (\<lambda>df.
     invoke pf (Add_par Scen ''input'' df))"

text \<open>Cells 15, 16 and 17: commit, solve, and the objective value.\<close>

definition cell15 :: "('s, 'e) platform \<Rightarrow> ('s, 'e, reply) prog" where
  "cell15 pf =
     pthen (invoke pf (Commit Scen ''added coal resources''))
           (invoke pf (Set_as_default Scen))"

definition cell16 :: "('s, 'e) platform \<Rightarrow> ('s, 'e, reply) prog" where
  "cell16 pf = invoke pf (Solve Scen)"

definition cell17 :: "('s, 'e) platform \<Rightarrow> ('s, 'e, pyval) prog" where
  "cell17 pf = pbind (invoke pf (Var Scen ''OBJ'')) (\<lambda>obj. lift (item obj ''lvl''))"

text \<open>
  Cell 19 makes the two plotting objects, \<^verbatim>\<open>b\<close> of \<^verbatim>\<open>base\<close> and \<^verbatim>\<open>p\<close> of
  \<^verbatim>\<open>scen\<close>; cells 22 to 40 plot.
\<close>

definition cell19 :: "('s, 'e) platform \<Rightarrow> ('s, 'e, reply) prog" where
  "cell19 pf =
     pthen (invoke pf (Plots_init Base country 700))
           (invoke pf (Plots_init Scen country 700))"

definition cell22 :: "('s, 'e) platform \<Rightarrow> ('s, 'e, reply) prog" where
  "cell22 pf = invoke pf (Plot_activity B True [''coal_ppl'', ''wind_ppl''])"

definition cell24 :: "('s, 'e) platform \<Rightarrow> ('s, 'e, reply) prog" where
  "cell24 pf = invoke pf (Plot_activity P True [''coal_ppl'', ''wind_ppl''])"

definition cell27 :: "('s, 'e) platform \<Rightarrow> ('s, 'e, reply) prog" where
  "cell27 pf = invoke pf (Plot_capacity B True [''coal_ppl'', ''wind_ppl''])"

definition cell29 :: "('s, 'e) platform \<Rightarrow> ('s, 'e, reply) prog" where
  "cell29 pf = invoke pf (Plot_capacity P True [''coal_ppl'', ''wind_ppl''])"

definition cell32 :: "('s, 'e) platform \<Rightarrow> ('s, 'e, reply) prog" where
  "cell32 pf = invoke pf (Plot_prices B [''light''] True)"

definition cell34 :: "('s, 'e) platform \<Rightarrow> ('s, 'e, reply) prog" where
  "cell34 pf = invoke pf (Plot_prices P [''light''] True)"

definition cell38 :: "('s, 'e) platform \<Rightarrow> ('s, 'e, reply) prog" where
  "cell38 pf = invoke pf (Plot_fossil_supply_curve P)"

definition cell40 :: "('s, 'e) platform \<Rightarrow> ('s, 'e, reply) prog" where
  "cell40 pf = invoke pf (Plot_extraction P [''coal''] True True)"

text \<open>Cell 41: \<^verbatim>\<open>mp.close_db()\<close>\<close>

definition cell41 :: "('s, 'e) platform \<Rightarrow> ('s, 'e, reply) prog" where
  "cell41 pf = invoke pf (Close_db Mp)"

text \<open>The notebook, run from top to bottom.\<close>

definition notebook :: "('s, 'e) platform \<Rightarrow> ('s, 'e, reply) prog" where
  "notebook pf =
     pthen (cell2 pf) (pthen (cell4 pf) (pthen (cell7 pf)
    (pbind (cell9 pf) (\<lambda>(vintage_years, act_years, model_horizon).
     pthen (cell11 pf model_horizon)
    (pthen (cell13 pf vintage_years act_years)
    (pthen (cell15 pf) (pthen (cell16 pf) (pthen (cell17 pf) (pthen (cell19 pf)
    (pthen (cell22 pf) (pthen (cell24 pf) (pthen (cell27 pf) (pthen (cell29 pf)
    (pthen (cell32 pf) (pthen (cell34 pf) (pthen (cell38 pf) (pthen (cell40 pf)
           (cell41 pf))))))))))))))))))"

subsection \<open>Runs of the notebook\<close>

text \<open>
  A run starts with no call made. Its result is the value of the last cell or the
  exception that ended it; its final state holds the calls that were made.
\<close>

definition result :: "('s, 'e) platform \<Rightarrow> 's \<Rightarrow> 'e exn + reply" where
  "result pf s = fst (notebook pf (start s))"

definition final :: "('s, 'e) platform \<Rightarrow> 's \<Rightarrow> ('s, 'e) kstate" where
  "final pf s = snd (notebook pf (start s))"

definition calls :: "('s, 'e) kstate \<Rightarrow> call list" where
  "calls k = map fst (log k)"

definition returned :: "'x + 'a \<Rightarrow> bool" where
  "returned r = (case r of Inl e \<Rightarrow> False | Inr a \<Rightarrow> True)"

subsection \<open>Notions used to state the properties\<close>

text \<open>
  The rows of a submitted frame depend on what the platform returned (the model years);
  its columns do not. The shape of a call keeps the columns and drops the rows.
\<close>

definition header :: "string list \<Rightarrow> frame" where
  "header cols = map (\<lambda>c. (c, [])) cols"

definition shape :: "call \<Rightarrow> call" where
  "shape c = (case c of Add_par ob name df \<Rightarrow> Add_par ob name (header (map fst df)) | _ \<Rightarrow> c)"

text \<open>The calls of a complete run, in order, as shapes.\<close>

definition plan :: "call list" where
  "plan =
    [Platform_init,
     Scenario_init Mp ''Westeros Electrified'' ''baseline'',
     Clone Base ''Westeros Electrified'' ''fossil_resources''
       ''illustration of adding fossil resources'' False,
     Check_out Scen,
     Add_set Scen ''commodity'' (Key ''coal''),
     Add_set Scen ''level'' (Key ''resource''),
     Add_set Scen ''level_resource'' (Key ''resource''),
     Add_set Scen ''grade'' (Keys [''a'', ''b'']),
     Vintage_and_active_years Scen,
     Set_get Scen ''year'',
     Add_par Scen ''resource_volume''
       (header [''node'', ''commodity'', ''grade'', ''value'', ''unit'']),
     Add_par Scen ''resource_cost''
       (header [''node'', ''commodity'', ''grade'', ''year'', ''value'', ''unit'']),
     Add_par Scen ''historical_extraction''
       (header [''node'', ''commodity'', ''grade'', ''year'', ''value'', ''unit'']),
     Add_par Scen ''resource_volume''
       (header [''node'', ''commodity'', ''grade'', ''value'', ''unit'']),
     Add_par Scen ''resource_cost''
       (header [''node'', ''commodity'', ''grade'', ''year'', ''value'', ''unit'']),
     Add_par Scen ''historical_extraction''
       (header [''node'', ''commodity'', ''grade'', ''year'', ''value'', ''unit'']),
     Add_par Scen ''input''
       (header [''node_loc'', ''year_vtg'', ''year_act'', ''mode'', ''node_origin'',
                ''commodity'', ''time'', ''time_origin'', ''technology'', ''level'',
                ''value'', ''unit'']),
     Commit Scen ''added coal resources'',
     Set_as_default Scen,
     Solve Scen,
     Var Scen ''OBJ'',
     Plots_init Base ''Westeros'' 700,
     Plots_init Scen ''Westeros'' 700,
     Plot_activity B True [''coal_ppl'', ''wind_ppl''],
     Plot_activity P True [''coal_ppl'', ''wind_ppl''],
     Plot_capacity B True [''coal_ppl'', ''wind_ppl''],
     Plot_capacity P True [''coal_ppl'', ''wind_ppl''],
     Plot_prices B [''light''] True,
     Plot_prices P [''light''] True,
     Plot_fossil_supply_curve P,
     Plot_extraction P [''coal''] True True,
     Close_db Mp]"

text \<open>
  A part of the notebook advances the run from position \<open>n\<close> of the plan to position
  \<open>n'\<close>: started after the first \<open>n\<close> calls of the plan it ends after the first
  \<open>n'\<close> when it returns, and somewhere between the two when it raises.
\<close>

definition advances :: "nat \<Rightarrow> ('s, 'e, 'a) prog \<Rightarrow> nat \<Rightarrow> bool" where
  "advances n m n' =
     (n \<le> n' \<and> n' \<le> length plan \<and>
      (\<forall>k. map shape (calls k) = take n plan \<longrightarrow>
         (\<exists>j. n \<le> j \<and> j \<le> n' \<and> map shape (calls (snd (m k))) = take j plan \<and>
              (returned (fst (m k)) \<longrightarrow> j = n'))))"

text \<open>The method of a call, and the phase of the spec's sequence a method belongs to.\<close>

definition method_of :: "call \<Rightarrow> string" where
  "method_of c =
     (case c of
        Platform_init \<Rightarrow> ''Platform''
      | Scenario_init ob m sc \<Rightarrow> ''Scenario''
      | Clone ob m sc an ks \<Rightarrow> ''clone''
      | Check_out ob \<Rightarrow> ''check_out''
      | Add_set ob name ks \<Rightarrow> ''add_set''
      | Vintage_and_active_years ob \<Rightarrow> ''vintage_and_active_years''
      | Set_get ob name \<Rightarrow> ''set''
      | Add_par ob name df \<Rightarrow> ''add_par''
      | Commit ob cm \<Rightarrow> ''commit''
      | Set_as_default ob \<Rightarrow> ''set_as_default''
      | Solve ob \<Rightarrow> ''solve''
      | Var ob name \<Rightarrow> ''var''
      | Plots_init ob cn fy \<Rightarrow> ''Plots''
      | Plot_activity ob by sub \<Rightarrow> ''plot_activity''
      | Plot_capacity ob by sub \<Rightarrow> ''plot_capacity''
      | Plot_prices ob sub by \<Rightarrow> ''plot_prices''
      | Plot_fossil_supply_curve ob \<Rightarrow> ''plot_fossil_supply_curve''
      | Plot_extraction ob sub by bg \<Rightarrow> ''plot_extraction''
      | Close_db ob \<Rightarrow> ''close_db'')"

text \<open>
  load the platform (0), clone (1), add set members (2), add parameter rows (3),
  commit (4), solve (5), plot (6). The other methods belong to no phase.
\<close>

definition phase_of :: "string \<Rightarrow> nat option" where
  "phase_of m = map_of
     [(''Platform'', 0), (''clone'', 1), (''add_set'', 2), (''add_par'', 3), (''commit'', 4),
      (''solve'', 5), (''Plots'', 6), (''plot_activity'', 6), (''plot_capacity'', 6),
      (''plot_prices'', 6), (''plot_fossil_supply_curve'', 6), (''plot_extraction'', 6)] m"

definition phases :: "call list \<Rightarrow> nat list" where
  "phases cs = List.map_filter phase_of (map method_of cs)"

text \<open>
  The object a call is made on (for a constructor: the object it is given), and the
  methods that change the scenario they are called on.
\<close>

definition receiver :: "call \<Rightarrow> obj option" where
  "receiver c =
     (case c of
        Platform_init \<Rightarrow> None
      | Scenario_init ob m sc \<Rightarrow> Some ob
      | Clone ob m sc an ks \<Rightarrow> Some ob
      | Check_out ob \<Rightarrow> Some ob
      | Add_set ob name ks \<Rightarrow> Some ob
      | Vintage_and_active_years ob \<Rightarrow> Some ob
      | Set_get ob name \<Rightarrow> Some ob
      | Add_par ob name df \<Rightarrow> Some ob
      | Commit ob cm \<Rightarrow> Some ob
      | Set_as_default ob \<Rightarrow> Some ob
      | Solve ob \<Rightarrow> Some ob
      | Var ob name \<Rightarrow> Some ob
      | Plots_init ob cn fy \<Rightarrow> Some ob
      | Plot_activity ob by sub \<Rightarrow> Some ob
      | Plot_capacity ob by sub \<Rightarrow> Some ob
      | Plot_prices ob sub by \<Rightarrow> Some ob
      | Plot_fossil_supply_curve ob \<Rightarrow> Some ob
      | Plot_extraction ob sub by bg \<Rightarrow> Some ob
      | Close_db ob \<Rightarrow> Some ob)"

definition changes :: "call \<Rightarrow> bool" where
  "changes c = (method_of c \<in> set [''check_out'', ''add_set'', ''add_par'', ''commit'',
                                  ''set_as_default'', ''solve''])"

text \<open>The calls that are made on \<^verbatim>\<open>base\<close>, or make it.\<close>

definition on_base :: "call \<Rightarrow> bool" where
  "on_base c = (receiver c = Some Base \<or>
     (case c of Scenario_init ob m sc \<Rightarrow> sc = ''baseline'' | _ \<Rightarrow> False))"

text \<open>
  The platform keeps to its frame for some data of the baseline scenario, read off
  its state by \<open>data\<close>, when only a changing method called on \<^verbatim>\<open>base\<close> alters it.
\<close>

definition frame_rule :: "('s, 'e) platform \<Rightarrow> ('s \<Rightarrow> 'd) \<Rightarrow> bool" where
  "frame_rule pf data =
     (\<forall>c t. \<not> (changes c \<and> receiver c = Some Base) \<longrightarrow> data (snd (pf c t)) = data t)"

definition keeps :: "('s \<Rightarrow> 'd) \<Rightarrow> ('s, 'e, 'a) prog \<Rightarrow> bool" where
  "keeps data m = (\<forall>k. data (plat (snd (m k))) = data (plat k))"

text \<open>
  No call has raised so far; and a part of the notebook lets an exception of the
  platform through: started in such a state, either no call raises in it, or its result
  is the exception of the last call it made and no call before that one raised.
\<close>

definition clean :: "(call \<times> 'e option) list \<Rightarrow> bool" where
  "clean l = list_all (\<lambda>(c, e). e = None) l"

definition propagates :: "('s, 'e, 'a) prog \<Rightarrow> bool" where
  "propagates m =
     (\<forall>k. clean (log k) \<longrightarrow>
        (case fst (m k) of
           Inl (PlatformError e) \<Rightarrow>
             log (snd (m k)) \<noteq> [] \<and> snd (last (log (snd (m k)))) = Some e \<and>
             clean (butlast (log (snd (m k))))
         | _ \<Rightarrow> clean (log (snd (m k)))))"

text \<open>The parameters a run submitted, each with the columns of its frame.\<close>

definition submitted :: "call list \<Rightarrow> (string \<times> string list) list" where
  "submitted cs = List.map_filter
     (\<lambda>c. case c of Add_par ob name df \<Rightarrow> Some (name, map fst df) | _ \<Rightarrow> None) cs"

definition record_columns :: "string list" where
  "record_columns = [''node'', ''commodity'', ''grade'', ''year'', ''value'', ''unit'']"

definition columns_ok :: "(string \<times> string list) list \<Rightarrow> bool" where
  "columns_ok subs = list_all (\<lambda>(name, cols). list_all (\<lambda>c. c \<in> set record_columns) cols) subs"

subsection \<open>Sample platforms\<close>

text \<open>
  Two platforms to run the notebook on. The state counts the changes made to the
  baseline scenario and the calls made. The first answers every call; the second raises
  on \<^verbatim>\<open>solve\<close>.
\<close>

definition sample_reply :: "call \<Rightarrow> reply" where
  "sample_reply c =
     (case c of
        Vintage_and_active_years ob \<Rightarrow>
          RFrame [(''year_vtg'', [PInt 700, PInt 700, PInt 710]),
                  (''year_act'', [PInt 700, PInt 710, PInt 710])]
      | Set_get ob name \<Rightarrow> RSeries [PInt 690, PInt 700, PInt 710]
      | Var ob name \<Rightarrow> RDict [(''lvl'', PInt 0), (''mrg'', PInt 0)]
      | _ \<Rightarrow> RNone)"

definition sample_next :: "call \<Rightarrow> nat \<times> nat \<Rightarrow> nat \<times> nat" where
  "sample_next c t =
     (if changes c \<and> receiver c = Some Base then (Suc (fst t), Suc (snd t))
      else (fst t, Suc (snd t)))"

definition sample_platform :: "(nat \<times> nat, string) platform" where
  "sample_platform c t = (Inr (sample_reply c), sample_next c t)"

definition failing_platform :: "(nat \<times> nat, string) platform" where
  "failing_platform c t =
     (if method_of c = ''solve'' then (Inl ''infeasible'', sample_next c t)
      else (Inr (sample_reply c), sample_next c t))"

section \<open>Properties of the CI workflow\<close>

subsection \<open>Running the steps\<close>

text \<open>The one job of the workflow and its seventeen steps.\<close>

lemma the_job_eq: "the_job = job_pytest"
  by (simp add: the_job_def workflow_def get_def)

lemma steps_the_job: "steps the_job =
  [step_checkout_ixmp, step_checkout_message_ix, step_fetch_tags,
   step_setup_python, step_reticulate, step_setup_r, step_openjdk, step_cache,
   step_install_gams, step_check_gams, step_upgrade_pip, step_install_ixmp,
   step_install_message_ix, step_install_r, step_pytest, step_r_cmd_check,
   step_codecov]"
  by (simp add: the_job_eq job_pytest_def steps_def get_def items_def)

text \<open>
  Once a step has failed, a step that masks nothing does not run; so where every step is
  unmasked a failure skips all that follows and fails the job, and a step runs only if
  every unconditional step before it has succeeded. Both by induction on the steps.
\<close>

lemma not_enabled_when_failed: "unmasked s \<Longrightarrow> \<not> enabled cond False s"
  by (simp add: unmasked_def enabled_def split: option.splits)

lemma run_steps_after_failure:
  "list_all unmasked ss \<Longrightarrow> run_steps cond exit0 False ss = replicate (length ss) Skipped"
  by (induction ss) (simp_all add: not_enabled_when_failed)

lemma job_failed_Cons:
  "job_failed (out # outs) (s # ss) =
     ((out = Failure \<and> \<not> continue_on_error s) \<or> job_failed outs ss)"
  by (simp add: job_failed_def)


lemma failure_stops_job:
  "list_all unmasked ss \<Longrightarrow> i < length ss \<Longrightarrow> run_steps cond exit0 ok ss ! i = Failure \<Longrightarrow>
   job_failed (run_steps cond exit0 ok ss) ss \<and>
   (\<forall>j. i < j \<and> j < length ss \<longrightarrow> run_steps cond exit0 ok ss ! j = Skipped)"
proof (induction ss arbitrary: i ok)
  case Nil
  then show ?case by simp
next
  case (Cons s ss)
  from Cons.prems(1) have um: "unmasked s" and rest: "list_all unmasked ss" by simp_all
  then have nc: "\<not> continue_on_error s" by (simp add: unmasked_def)
  show ?case
  proof (cases i)
    case 0
    with Cons.prems(3) have en: "enabled cond ok s" and ex: "\<not> exit0 s"
      by (auto split: if_splits)
    have "run_steps cond exit0 ok (s # ss) = Failure # replicate (length ss) Skipped"
      using en ex nc rest by (simp add: run_steps_after_failure)
    then show ?thesis using 0 nc
      by (auto simp: job_failed_Cons nth_Cons split: nat.splits)
  next
    case (Suc i')
    obtain ok' where tl: "run_steps cond exit0 ok (s # ss) =
        hd (run_steps cond exit0 ok (s # ss)) # run_steps cond exit0 ok' ss"
      by (cases "enabled cond ok s"; cases "exit0 s") auto
    from Cons.prems(3) Suc tl have "run_steps cond exit0 ok' ss ! i' = Failure"
      by (metis nth_Cons_Suc)
    with Cons.IH[OF rest, of i' ok'] Cons.prems(2) Suc
    have ih: "job_failed (run_steps cond exit0 ok' ss) ss"
      "\<forall>j. i' < j \<and> j < length ss \<longrightarrow> run_steps cond exit0 ok' ss ! j = Skipped"
      by simp_all
    have "job_failed (run_steps cond exit0 ok (s # ss)) (s # ss)"
      by (subst tl) (simp add: job_failed_Cons ih(1))
    moreover have "\<forall>j. Suc i' < j \<and> j < length (s # ss) \<longrightarrow>
        run_steps cond exit0 ok (s # ss) ! j = Skipped"
    proof (intro allI impI)
      fix j assume j: "Suc i' < j \<and> j < length (s # ss)"
      then obtain j' where j': "j = Suc j'" by (cases j) auto
      with j ih(2) have "run_steps cond exit0 ok' ss ! j' = Skipped" by simp
      then show "run_steps cond exit0 ok (s # ss) ! j = Skipped"
        by (subst tl) (simp add: j')
    qed
    ultimately show ?thesis using Suc by simp
  qed
qed


lemma steps_unmasked: "list_all unmasked (steps the_job)"
  unfolding steps_the_job
  by (simp add: unmasked_def continue_on_error_def get_def scalar_def status_check_def
      step_checkout_ixmp_def step_checkout_message_ix_def step_fetch_tags_def
      step_setup_python_def step_reticulate_def step_setup_r_def step_openjdk_def
      step_cache_def step_install_gams_def step_check_gams_def step_upgrade_pip_def
      step_install_ixmp_def step_install_message_ix_def step_install_r_def step_pytest_def
      step_r_cmd_check_def step_codecov_def)

subsection \<open>The matrix\<close>

lemmas step_defs = step_checkout_ixmp_def step_checkout_message_ix_def step_fetch_tags_def
      step_setup_python_def step_reticulate_def step_setup_r_def step_openjdk_def
      step_cache_def step_install_gams_def step_check_gams_def step_upgrade_pip_def
      step_install_ixmp_def step_install_message_ix_def step_install_r_def step_pytest_def
      step_r_cmd_check_def step_codecov_def

lemma axes_the_job: "axes the_job =
  [(''os'', [Plain ''macos-latest'', Plain ''ubuntu-latest'', Plain ''windows-latest'']),
   (''python-version'', [Quoted ''3.6'', Quoted ''3.8''])]"
  by (simp add: the_job_eq job_pytest_def axes_def matrix_def get_def entries_def items_def)

lemma excludes_the_job: "excludes the_job =
  [[(''os'', Plain ''windows-latest''), (''python-version'', Quoted ''3.6'')]]"
  by (simp add: the_job_eq job_pytest_def excludes_def matrix_def get_def entries_def items_def)

lemma combos_the_job: "combos (axes the_job) =
  all_pairs [''macos-latest'', ''ubuntu-latest'', ''windows-latest''] [''3.6'', ''3.8'']"
  by (simp add: axes_the_job all_pairs_def)

lemma matrix_jobs_the_job: "matrix_jobs the_job =
  [[(''os'', Plain ''macos-latest''), (''python-version'', Quoted ''3.6'')],
   [(''os'', Plain ''macos-latest''), (''python-version'', Quoted ''3.8'')],
   [(''os'', Plain ''ubuntu-latest''), (''python-version'', Quoted ''3.6'')],
   [(''os'', Plain ''ubuntu-latest''), (''python-version'', Quoted ''3.8'')],
   [(''os'', Plain ''windows-latest''), (''python-version'', Quoted ''3.8'')]]"
  by (simp add: matrix_jobs_def excludes_the_job axes_the_job matches_def)

text \<open>
  C3, as stated, fails: the pairs of the three operating systems and the two Python
  versions are not all jobs. The pair (windows-latest, 3.6) is a pair of the product and
  no job is generated for it.
\<close>
theorem matrix_not_full_product:
  "\<not> set (all_pairs [''macos-latest'', ''ubuntu-latest'', ''windows-latest''] [''3.6'', ''3.8''])
       \<subseteq> set (matrix_jobs the_job)
   \<and> [(''os'', Plain ''windows-latest''), (''python-version'', Quoted ''3.6'')]
     \<in> set (all_pairs [''macos-latest'', ''ubuntu-latest'', ''windows-latest''] [''3.6'', ''3.8''])
   \<and> [(''os'', Plain ''windows-latest''), (''python-version'', Quoted ''3.6'')]
     \<notin> set (matrix_jobs the_job)"
  by (simp add: matrix_jobs_the_job all_pairs_def)

text \<open>
  C3, amended: the matrix has the two axes \<^verbatim>\<open>os\<close> and \<^verbatim>\<open>python-version\<close>, their
  combinations are the six pairs of {macos-latest, ubuntu-latest, windows-latest} and
  {3.6, 3.8}, and a job is generated for every pair but (windows-latest, 3.6).
\<close>
theorem matrix_product_less_exclude:
  "map fst (axes the_job) = [''os'', ''python-version'']
   \<and> combos (axes the_job) =
       all_pairs [''macos-latest'', ''ubuntu-latest'', ''windows-latest''] [''3.6'', ''3.8'']
   \<and> matrix_jobs the_job =
       filter (\<lambda>c. c \<noteq> [(''os'', Plain ''windows-latest''), (''python-version'', Quoted ''3.6'')])
         (combos (axes the_job))"
  by (simp add: matrix_jobs_the_job combos_the_job) (simp add: axes_the_job all_pairs_def)

lemma run_matrix_no_fail_fast:
  "run_matrix False passes js = map (\<lambda>j. if passes j then JSuccess else JFailure) js"
  by (induction js) simp_all

lemma fail_fast_the_job: "fail_fast the_job = False"
  by (simp add: the_job_eq job_pytest_def fail_fast_def get_def scalar_def)

text \<open>
  C8: the matrix excludes exactly one combination, (windows-latest, 3.6), so five of the
  six pairs give a job; \<^verbatim>\<open>fail-fast\<close> is false, so whatever jobs fail, every job
  ends with its own outcome and none is cancelled.
\<close>
theorem matrix_five_jobs_no_fail_fast:
  "excludes the_job = [[(''os'', Plain ''windows-latest''), (''python-version'', Quoted ''3.6'')]]
   \<and> length (combos (axes the_job)) = 6 \<and> distinct (combos (axes the_job))
   \<and> length (matrix_jobs the_job) = 5
   \<and> set (matrix_jobs the_job) = set (combos (axes the_job))
         - {[(''os'', Plain ''windows-latest''), (''python-version'', Quoted ''3.6'')]}
   \<and> \<not> fail_fast the_job
   \<and> run_matrix (fail_fast the_job) passes js =
         map (\<lambda>j. if passes j then JSuccess else JFailure) js
   \<and> JCancelled \<notin> set (run_matrix (fail_fast the_job) passes js)"
proof -
  have "set (matrix_jobs the_job) = set (combos (axes the_job))
         - {[(''os'', Plain ''windows-latest''), (''python-version'', Quoted ''3.6'')]}"
    unfolding matrix_jobs_the_job combos_the_job all_pairs_def by auto
  moreover have "distinct (combos (axes the_job))"
    unfolding combos_the_job all_pairs_def by simp
  moreover have "JCancelled \<notin> set (run_matrix False passes js)"
    unfolding run_matrix_no_fail_fast by auto
  ultimately show ?thesis
    by (simp add: excludes_the_job matrix_jobs_the_job fail_fast_the_job
        run_matrix_no_fail_fast) (simp add: combos_the_job all_pairs_def)
qed

subsection \<open>Environment variables\<close>

lemma subst_depth: "subst workflow c ''${{ env.depth }}'' = ''100''"
  by (simp add: subst_def job_context_def strip_prefix_def trim_def workflow_def get_def scalar_def)

text \<open>
  C6: the workflow-level \<^verbatim>\<open>env\<close> holds exactly GAMS_VERSION = 25.1.1 and
  depth = 100. The two checkout steps are the only ones that use actions/checkout and
  both get \<^verbatim>\<open>fetch-depth\<close> 100 in every job; the one step that fetches tags runs
  two \<^verbatim>\<open>git fetch --tags\<close> lines, both with \<^verbatim>\<open>--depth=100\<close>; the cache key
  names GAMS_VERSION and is, for each job, os-gams25.1.1-pyversion.
\<close>
theorem env_depth_and_gams_version:
  "entries (get ''env'' workflow) = [(''GAMS_VERSION'', Plain ''25.1.1''), (''depth'', Plain ''100'')]
   \<and> filter (\<lambda>s. scalar (get ''uses'' s) = Some ''actions/checkout@v2'') (steps the_job)
        = [step_checkout_ixmp, step_checkout_message_ix]
   \<and> map (\<lambda>s. map_option (subst workflow c) (scalar (get_path [''with'', ''fetch-depth''] s)))
        [step_checkout_ixmp, step_checkout_message_ix] = [Some ''100'', Some ''100'']
   \<and> filter (\<lambda>s. list_ex (contains ''git fetch'') (script (get ''run'' s))) (steps the_job)
        = [step_fetch_tags]
   \<and> map (subst workflow c) (script (get ''run'' step_fetch_tags))
        = [''(cd ixmp; git fetch --tags --depth=100)'',
           ''(cd message_ix; git fetch --tags --depth=100)'']
   \<and> contains ''${{ env.GAMS_VERSION }}'' (the (scalar (get_path [''with'', ''key''] step_cache)))
   \<and> map (\<lambda>c. subst workflow c (the (scalar (get_path [''with'', ''key''] step_cache))))
        (matrix_jobs the_job)
        = [''macos-latest-gams25.1.1-py3.6'', ''macos-latest-gams25.1.1-py3.8'',
           ''ubuntu-latest-gams25.1.1-py3.6'', ''ubuntu-latest-gams25.1.1-py3.8'',
           ''windows-latest-gams25.1.1-py3.8'']"
proof -
  have a: "entries (get ''env'' workflow) = [(''GAMS_VERSION'', Plain ''25.1.1''), (''depth'', Plain ''100'')]"
    by (simp add: workflow_def get_def entries_def)
  have b: "filter (\<lambda>s. scalar (get ''uses'' s) = Some ''actions/checkout@v2'') (steps the_job)
        = [step_checkout_ixmp, step_checkout_message_ix]"
    unfolding steps_the_job by (simp add: step_defs get_def scalar_def)
  have c: "map (\<lambda>s. map_option (subst workflow c) (scalar (get_path [''with'', ''fetch-depth''] s)))
        [step_checkout_ixmp, step_checkout_message_ix] = [Some ''100'', Some ''100'']"
    by (simp add: step_checkout_ixmp_def step_checkout_message_ix_def get_def scalar_def subst_depth)
  have d: "filter (\<lambda>s. list_ex (contains ''git fetch'') (script (get ''run'' s))) (steps the_job)
        = [step_fetch_tags]"
    unfolding steps_the_job by code_simp
  have e: "map (subst workflow c) (script (get ''run'' step_fetch_tags))
        = [''(cd ixmp; git fetch --tags --depth=100)'',
           ''(cd message_ix; git fetch --tags --depth=100)'']"
    by (simp add: step_fetch_tags_def get_def script_def subst_def job_context_def
        strip_prefix_def trim_def workflow_def scalar_def)
  have f: "contains ''${{ env.GAMS_VERSION }}'' (the (scalar (get_path [''with'', ''key''] step_cache)))"
    by code_simp
  have g: "map (\<lambda>c. subst workflow c (the (scalar (get_path [''with'', ''key''] step_cache))))
        (matrix_jobs the_job)
        = [''macos-latest-gams25.1.1-py3.6'', ''macos-latest-gams25.1.1-py3.8'',
           ''ubuntu-latest-gams25.1.1-py3.6'', ''ubuntu-latest-gams25.1.1-py3.8'',
           ''windows-latest-gams25.1.1-py3.8'']"
    by code_simp
  from a b c d e f g show ?thesis by blast
qed

subsection \<open>Order of the steps, and failure\<close>



text \<open>
  C7: no step and not the job sets \<^verbatim>\<open>continue-on-error\<close>, and no step's \<^verbatim>\<open>if\<close>
  replaces the implicit \<^verbatim>\<open>success()\<close>; so in every job a step that exits non-zero
  fails the job, and every later step is skipped.
\<close>
theorem failed_step_fails_job:
  "list_all (\<lambda>s. get ''continue-on-error'' s = None) (steps the_job)
   \<and> get ''continue-on-error'' the_job = None
   \<and> list_all unmasked (steps the_job)
   \<and> (\<forall>i < length (steps the_job). run_steps cond exit0 True (steps the_job) ! i = Failure \<longrightarrow>
        job_failed (run_steps cond exit0 True (steps the_job)) (steps the_job)
        \<and> (\<forall>j. i < j \<and> j < length (steps the_job) \<longrightarrow>
              run_steps cond exit0 True (steps the_job) ! j = Skipped))"
proof -
  have "list_all (\<lambda>s. get ''continue-on-error'' s = None) (steps the_job)"
    unfolding steps_the_job by (simp add: step_defs get_def)
  moreover have "get ''continue-on-error'' the_job = None"
    by (simp add: the_job_eq job_pytest_def get_def)
  ultimately show ?thesis
    using steps_unmasked failure_stops_job[OF steps_unmasked, of _ cond exit0 True] by blast
qed

text \<open>
  C7 at a concrete run: pytest exits non-zero; the job fails and the two steps after it
  are skipped.
\<close>
theorem failed_step_fails_job_witness:
  "run_steps (\<lambda>ok e. True) (\<lambda>s. s \<noteq> step_pytest) True (steps the_job) ! 14 = Failure
   \<and> job_failed (run_steps (\<lambda>ok e. True) (\<lambda>s. s \<noteq> step_pytest) True (steps the_job)) (steps the_job)
   \<and> run_steps (\<lambda>ok e. True) (\<lambda>s. s \<noteq> step_pytest) True (steps the_job) ! 15 = Skipped
   \<and> run_steps (\<lambda>ok e. True) (\<lambda>s. s \<noteq> step_pytest) True (steps the_job) ! 16 = Skipped"
proof -
  have a: "run_steps (\<lambda>ok e. True) (\<lambda>s. s \<noteq> step_pytest) True (steps the_job) ! 14 = Failure"
    by code_simp
  have len: "length (steps the_job) = 17" by (simp add: steps_the_job)
  have "\<forall>i < length (steps the_job).
      run_steps (\<lambda>ok e. True) (\<lambda>s. s \<noteq> step_pytest) True (steps the_job) ! i = Failure \<longrightarrow>
        job_failed (run_steps (\<lambda>ok e. True) (\<lambda>s. s \<noteq> step_pytest) True (steps the_job))
          (steps the_job)
        \<and> (\<forall>j. i < j \<and> j < length (steps the_job) \<longrightarrow>
              run_steps (\<lambda>ok e. True) (\<lambda>s. s \<noteq> step_pytest) True (steps the_job) ! j = Skipped)"
    using failed_step_fails_job[of "\<lambda>ok e. True" "\<lambda>s. s \<noteq> step_pytest"] by blast
  from this[rule_format, of 14] a len
  have b: "job_failed (run_steps (\<lambda>ok e. True) (\<lambda>s. s \<noteq> step_pytest) True (steps the_job))
          (steps the_job)"
    and c: "\<forall>j. 14 < j \<and> j < length (steps the_job) \<longrightarrow>
              run_steps (\<lambda>ok e. True) (\<lambda>s. s \<noteq> step_pytest) True (steps the_job) ! j = Skipped"
    by simp_all
  from c[rule_format, of 15] c[rule_format, of 16] a b len show ?thesis by simp
qed

section \<open>Properties of the notebook\<close>

subsection \<open>Sequencing and the plan\<close>

text \<open>
  Rules for \<open>advances\<close>, one for each way the notebook is put together: a value, a
  computation of Python, a call, and one statement after the other. A call advances
  the run by one position when its shape is the plan's at that position.
\<close>

lemma pbind_Inl: "fst (m k) = Inl e \<Longrightarrow> pbind m f k = (Inl e, snd (m k))"
  by (cases "m k") (simp add: pbind_def)

lemma pbind_Inr: "fst (m k) = Inr a \<Longrightarrow> pbind m f k = f a (snd (m k))"
  by (cases "m k") (simp add: pbind_def)

lemma advances_ret: "n \<le> length plan \<Longrightarrow> advances n (ret a) n"
  by (auto simp: advances_def ret_def)

lemma advances_lift: "n \<le> length plan \<Longrightarrow> advances n (lift r) n"
  by (auto simp: advances_def lift_def)

lemma calls_invoke: "calls (snd (invoke pf c k)) = calls k @ [c]"
  by (auto simp: calls_def invoke_def split: prod.splits sum.splits)

lemma advances_invoke:
  assumes "n < length plan" and "plan ! n = shape c" and "n' = Suc n"
  shows "advances n (invoke pf c) n'"
  unfolding advances_def
proof (intro conjI allI impI)
  fix k :: "('a, 'b) kstate"
  assume k: "map shape (calls k) = take n plan"
  have "map shape (calls (snd (invoke pf c k))) = take (Suc n) plan"
    using assms k by (simp add: calls_invoke take_Suc_conv_app_nth)
  then show "\<exists>j\<ge>n. j \<le> n' \<and> map shape (calls (snd (invoke pf c k))) = take j plan \<and>
      (returned (fst (invoke pf c k)) \<longrightarrow> j = n')"
    using assms(3) by (intro exI[of _ "Suc n"]) simp
qed (use assms in auto)

lemma advances_bind:
  assumes m: "advances n m n1" and f: "\<And>a. advances n1 (f a) n2"
  shows "advances n (pbind m f) n2"
  unfolding advances_def
proof (intro conjI allI impI)
  from m have le1: "n \<le> n1" "n1 \<le> length plan" by (simp_all add: advances_def)
  from f have le2: "n1 \<le> n2" "n2 \<le> length plan" by (simp_all add: advances_def)
  show "n \<le> n2" using le1 le2 by simp
  show "n2 \<le> length plan" using le2 by simp
  fix k :: "('a, 'b) kstate"
  assume k: "map shape (calls k) = take n plan"
  with m obtain j where j: "n \<le> j" "j \<le> n1" "map shape (calls (snd (m k))) = take j plan"
    "returned (fst (m k)) \<longrightarrow> j = n1"
    unfolding advances_def by blast
  show "\<exists>j\<ge>n. j \<le> n2 \<and> map shape (calls (snd (pbind m f k))) = take j plan \<and>
      (returned (fst (pbind m f k)) \<longrightarrow> j = n2)"
  proof (cases "fst (m k)")
    case (Inl e)
    then have "pbind m f k = (Inl e, snd (m k))" by (rule pbind_Inl)
    with j le2 show ?thesis by (intro exI[of _ j]) (simp add: returned_def)
  next
    case (Inr a)
    then have eq: "pbind m f k = f a (snd (m k))" by (rule pbind_Inr)
    from Inr j have "map shape (calls (snd (m k))) = take n1 plan" by (simp add: returned_def)
    with f[of a] obtain i where "n1 \<le> i" "i \<le> n2"
      "map shape (calls (snd (f a (snd (m k))))) = take i plan"
      "returned (fst (f a (snd (m k)))) \<longrightarrow> i = n2"
      unfolding advances_def by blast
    with le1 show ?thesis unfolding eq by (intro exI[of _ i]) simp
  qed
qed

lemma advances_then:
  "advances n m n1 \<Longrightarrow> advances n1 m' n2 \<Longrightarrow> advances n (pthen m m') n2"
  unfolding pthen_def by (rule advances_bind)

lemma advances_lift_bind:
  assumes "\<And>a. r = Inr a \<Longrightarrow> advances n (f a) n'" and "n \<le> n'" and "n' \<le> length plan"
  shows "advances n (pbind (lift r) f) n'"
proof (cases r)
  case (Inl e)
  then have "pbind (lift r) f = (\<lambda>k. (Inl (PyError e), k))"
    by (simp add: pbind_def lift_def)
  with assms(2,3) show ?thesis by (auto simp: advances_def returned_def)
next
  case (Inr a)
  then have "pbind (lift r) f = f a" by (simp add: pbind_def lift_def)
  with assms(1)[OF Inr] show ?thesis by simp
qed

text \<open>The columns of the four kinds of frame, whatever their rows are.\<close>

lemma cols_resource_volume:
  "resource_volume_df g = Inr df \<Longrightarrow>
   map fst df = [''node'', ''commodity'', ''grade'', ''value'', ''unit'']"
  by (auto simp: resource_volume_df_def rbind_def DataFrame_def lengths_def
      List.map_filter_simps split: sum.splits)

lemma cols_resource_cost:
  "resource_cost_df mh g = Inr df \<Longrightarrow>
   map fst df = [''node'', ''commodity'', ''grade'', ''year'', ''value'', ''unit'']"
  by (auto simp: resource_cost_df_def rbind_def DataFrame_def lengths_def
      List.map_filter_simps split: sum.splits)

lemma cols_historical_extraction:
  "historical_extraction_df g = Inr df \<Longrightarrow>
   map fst df = [''node'', ''commodity'', ''grade'', ''year'', ''value'', ''unit'']"
  by (auto simp: historical_extraction_df_def rbind_def DataFrame_def lengths_def
      List.map_filter_simps split: sum.splits)

lemma input_df_eq:
  "input_df vy ay =
     (if length ay = length vy then
        Inr [(''node_loc'', replicate (length vy) (PStr ''Westeros'')),
             (''year_vtg'', vy),
             (''year_act'', ay),
             (''mode'', replicate (length vy) (PStr ''standard'')),
             (''node_origin'', replicate (length vy) (PStr ''Westeros'')),
             (''commodity'', replicate (length vy) (PStr ''coal'')),
             (''time'', replicate (length vy) (PStr ''year'')),
             (''time_origin'', replicate (length vy) (PStr ''year'')),
             (''technology'', replicate (length vy) (PStr ''coal_ppl'')),
             (''level'', replicate (length vy) (PStr ''resource'')),
             (''value'', replicate (length vy) (PInt 1)),
             (''unit'', replicate (length vy) (PStr ''%''))]
      else Inl ValueError)"
  by (simp add: input_df_def make_df_def base_input_def dict_update_def DataFrame_def
      lengths_def List.map_filter_simps broadcast_def country_def)

lemma cols_input:
  "input_df vy ay = Inr df \<Longrightarrow>
   map fst df = [''node_loc'', ''year_vtg'', ''year_act'', ''mode'', ''node_origin'',
                ''commodity'', ''time'', ''time_origin'', ''technology'', ''level'',
                ''value'', ''unit'']"
  by (auto simp: input_df_eq split: if_splits)

lemmas cell_defs = cell2_def cell4_def cell7_def cell9_def cell11_def cell13_def cell15_def
  cell16_def cell17_def cell19_def cell22_def cell24_def cell27_def cell29_def cell32_def
  cell34_def cell38_def cell40_def cell41_def

lemmas cols = cols_resource_volume cols_resource_cost cols_historical_extraction cols_input

lemma length_plan: "length plan = 32"
  by (simp add: plan_def)

text \<open>
  The whole notebook advances the run from the start of the plan to its end: the rules
  are applied along the cells, and each call is compared with the plan.
\<close>

lemma advances_ret': "n' = n \<Longrightarrow> n \<le> length plan \<Longrightarrow> advances n (ret a) n'"
  by (simp add: advances_ret)

lemma advances_lift': "n' = n \<Longrightarrow> n \<le> length plan \<Longrightarrow> advances n (lift r) n'"
  by (simp add: advances_lift)

lemma advances_bind_triple:
  "advances n m n1 \<Longrightarrow> (\<And>x y z. advances n1 (f x y z) n2) \<Longrightarrow>
   advances n (pbind m (\<lambda>(x, y, z). f x y z)) n2"
  by (rule advances_bind) (auto split: prod.splits)

lemma notebook_advances: "advances 0 (notebook pf) 32"
  unfolding notebook_def cell_defs potentials_def list.map fst_conv for_each.simps
  by (rule advances_lift_bind advances_bind_triple advances_bind advances_then advances_invoke
        advances_ret' advances_lift' refl
      | (auto simp: plan_def shape_def model_def commodity_def level_def country_def
           dest!: cols)[1])+

subsection \<open>Every run follows the plan\<close>

lemma calls_start: "calls (start s) = []"
  by (simp add: calls_def start_def)

lemma follows_plan:
  "\<exists>j\<le>length plan. map shape (calls (final pf s)) = take j plan \<and>
      (returned (result pf s) \<longrightarrow> j = length plan)"
proof -
  have "map shape (calls (start s :: ('a, 'b) kstate)) = take 0 plan"
    by (simp add: calls_start)
  with notebook_advances[of pf] obtain j where
    "j \<le> 32" "map shape (calls (snd (notebook pf (start s)))) = take j plan"
    "returned (fst (notebook pf (start s))) \<longrightarrow> j = 32"
    unfolding advances_def by blast
  then show ?thesis
    by (intro exI[of _ j]) (simp add: final_def result_def length_plan)
qed

lemma run_prefix: "prefix (map shape (calls (final pf s))) plan"
  using follows_plan[of pf s] by (auto simp: take_is_prefix)

lemma run_complete: "returned (result pf s) \<Longrightarrow> map shape (calls (final pf s)) = plan"
  using follows_plan[of pf s] by auto

text \<open>What the properties look at is the same for a call and for its shape.\<close>

lemma method_shape: "method_of (shape c) = method_of c"
  by (cases c) (simp_all add: shape_def method_of_def)

lemma receiver_shape: "receiver (shape c) = receiver c"
  by (cases c) (simp_all add: shape_def receiver_def)

lemma changes_shape: "changes (shape c) = changes c"
  by (simp add: changes_def method_shape)

lemma on_base_shape: "on_base (shape c) = on_base c"
  by (cases c) (simp_all add: on_base_def receiver_shape, simp_all add: shape_def)

lemma shape_plain: "method_of c' \<noteq> ''add_par'' \<Longrightarrow> shape c = c' \<Longrightarrow> c = c'"
  by (cases c) (auto simp: shape_def method_of_def)

lemma map_shape_plain:
  "list_all (\<lambda>c. method_of c \<noteq> ''add_par'') cs' \<Longrightarrow> map shape cs = cs' \<Longrightarrow> cs = cs'"
proof (induction cs arbitrary: cs')
  case Nil
  then show ?case by simp
next
  case (Cons c cs)
  then obtain d ds where cs': "cs' = d # ds" by auto
  with Cons.prems have "shape c = d" "method_of d \<noteq> ''add_par''" "map shape cs = ds"
    "list_all (\<lambda>c. method_of c \<noteq> ''add_par'') ds" by simp_all
  then show ?case using Cons.IH[of ds] cs' by (simp add: shape_plain)
qed

lemma prefix_map_filter:
  "prefix xs ys \<Longrightarrow> prefix (List.map_filter f xs) (List.map_filter f ys)"
  by (auto simp: prefix_def List.map_filter_def)

lemma sorted_prefix: "prefix xs ys \<Longrightarrow> sorted ys \<Longrightarrow> sorted (xs :: nat list)"
  by (auto simp: prefix_def sorted_append)

lemma phases_shape: "phases (map shape cs) = phases cs"
  by (simp add: phases_def method_shape o_def)

lemma map_filter_map_same:
  "(\<And>x. f (g x) = f x) \<Longrightarrow> List.map_filter f (map g xs) = List.map_filter f xs"
  by (induction xs) (auto simp: List.map_filter_simps split: option.splits)

lemma submitted_shape: "submitted (map shape cs) = submitted cs"
  unfolding submitted_def
proof (rule map_filter_map_same)
  fix c
  show "(case shape c of Add_par ob name df \<Rightarrow> Some (name, map fst df) | _ \<Rightarrow> None) =
        (case c of Add_par ob name df \<Rightarrow> Some (name, map fst df) | _ \<Rightarrow> None)"
    by (cases c) (simp_all add: shape_def header_def o_def)
qed

lemma methods_plan: "map method_of plan =
  [''Platform'', ''Scenario'', ''clone'', ''check_out'', ''add_set'',
   ''add_set'', ''add_set'', ''add_set'', ''vintage_and_active_years'',
   ''set'', ''add_par'', ''add_par'', ''add_par'', ''add_par'', ''add_par'',
   ''add_par'', ''add_par'', ''commit'', ''set_as_default'', ''solve'',
   ''var'', ''Plots'', ''Plots'', ''plot_activity'', ''plot_activity'',
   ''plot_capacity'', ''plot_capacity'', ''plot_prices'', ''plot_prices'',
   ''plot_fossil_supply_curve'', ''plot_extraction'', ''close_db'']"
  by (simp add: plan_def method_of_def)

lemma phases_plan: "phases plan =
  [0, 1, 2, 2, 2, 2, 3, 3, 3, 3, 3, 3, 3, 4, 5, 6, 6, 6, 6, 6, 6, 6, 6, 6, 6]"
  unfolding phases_def methods_plan by (simp add: phase_of_def List.map_filter_simps)

text \<open>
  C1: in every run, on every platform and whether or not the run is ended by an
  exception, the methods called are an initial part of one fixed sequence, and the whole
  of it when the run completes: Platform, Scenario, clone, check_out, four add_set, two
  reads, seven add_par, commit, set_as_default, solve, var, the plots, close_db. So the
  phases load, clone, add sets, add parameters, commit, solve, plot never go backwards:
  no add_set after an add_par, commit after both, solve after commit, every plot after
  solve. What the platform returns changes the rows of the frames, never the order.
\<close>
theorem calls_in_fixed_order:
  "prefix (map method_of (calls (final pf s))) (map method_of plan)
   \<and> (returned (result pf s) \<longrightarrow> map method_of (calls (final pf s)) = map method_of plan)
   \<and> map method_of plan =
      [''Platform'', ''Scenario'', ''clone'', ''check_out'', ''add_set'',
       ''add_set'', ''add_set'', ''add_set'', ''vintage_and_active_years'',
       ''set'', ''add_par'', ''add_par'', ''add_par'', ''add_par'', ''add_par'',
       ''add_par'', ''add_par'', ''commit'', ''set_as_default'', ''solve'',
       ''var'', ''Plots'', ''Plots'', ''plot_activity'', ''plot_activity'',
       ''plot_capacity'', ''plot_capacity'', ''plot_prices'', ''plot_prices'',
       ''plot_fossil_supply_curve'', ''plot_extraction'', ''close_db'']
   \<and> sorted (phases (calls (final pf s)))
   \<and> prefix (phases (calls (final pf s)))
        [0, 1, 2, 2, 2, 2, 3, 3, 3, 3, 3, 3, 3, 4, 5, 6, 6, 6, 6, 6, 6, 6, 6, 6, 6]"
proof -
  have m: "map method_of (calls (final pf s)) = map method_of (map shape (calls (final pf s)))"
    by (simp add: method_shape o_def)
  have a: "prefix (map method_of (calls (final pf s))) (map method_of plan)"
    unfolding m using run_prefix[of pf s] by (rule map_mono_prefix)
  have b: "returned (result pf s) \<longrightarrow> map method_of (calls (final pf s)) = map method_of plan"
    unfolding m by (simp add: run_complete)
  have "prefix (phases (map shape (calls (final pf s)))) (phases plan)"
    unfolding phases_def
    by (intro prefix_map_filter map_mono_prefix run_prefix)
  then have c: "prefix (phases (calls (final pf s))) (phases plan)"
    by (simp add: phases_shape)
  have "sorted (phases plan)" by (simp add: phases_plan)
  with c have d: "sorted (phases (calls (final pf s)))" by (rule sorted_prefix)
  from a b c d methods_plan show ?thesis by (simp add: phases_plan)
qed

lemma sample_run_returns: "returned (result sample_platform (0, 0))"
  by code_simp

text \<open>C1 on the sample platform: the run completes and makes the 32 calls.\<close>
theorem calls_in_fixed_order_witness:
  "returned (result sample_platform (0, 0))
   \<and> map method_of (calls (final sample_platform (0, 0))) =
      [''Platform'', ''Scenario'', ''clone'', ''check_out'', ''add_set'',
       ''add_set'', ''add_set'', ''add_set'', ''vintage_and_active_years'',
       ''set'', ''add_par'', ''add_par'', ''add_par'', ''add_par'', ''add_par'',
       ''add_par'', ''add_par'', ''commit'', ''set_as_default'', ''solve'',
       ''var'', ''Plots'', ''Plots'', ''plot_activity'', ''plot_activity'',
       ''plot_capacity'', ''plot_capacity'', ''plot_prices'', ''plot_prices'',
       ''plot_fossil_supply_curve'', ''plot_extraction'', ''close_db'']"
  using calls_in_fixed_order[of sample_platform "(0, 0)"] sample_run_returns by simp

subsection \<open>Exceptions\<close>

text \<open>Rules for \<open>propagates\<close>, as for \<open>advances\<close>.\<close>

lemma propagates_ret: "propagates (ret a)"
  by (simp add: propagates_def ret_def)

lemma propagates_lift: "propagates (lift r)"
  by (cases r) (simp_all add: propagates_def lift_def)

lemma propagates_invoke: "propagates (invoke pf c)"
  unfolding propagates_def
proof (intro allI impI)
  fix k :: "('a, 'b) kstate"
  assume k: "clean (log k)"
  obtain r t where p: "pf c (plat k) = (r, t)" by (cases "pf c (plat k)")
  show "case fst (invoke pf c k) of
      Inl (PlatformError e) \<Rightarrow>
        log (snd (invoke pf c k)) \<noteq> [] \<and> snd (last (log (snd (invoke pf c k)))) = Some e \<and>
        clean (butlast (log (snd (invoke pf c k))))
    | _ \<Rightarrow> clean (log (snd (invoke pf c k)))"
    using k p by (cases r) (simp_all add: invoke_def clean_def)
qed

lemma propagates_bind:
  assumes m: "propagates m" and f: "\<And>a. propagates (f a)"
  shows "propagates (pbind m f)"
  unfolding propagates_def
proof (intro allI impI)
  fix k :: "('a, 'b) kstate"
  assume k: "clean (log k)"
  show "case fst (pbind m f k) of
      Inl (PlatformError e) \<Rightarrow>
        log (snd (pbind m f k)) \<noteq> [] \<and> snd (last (log (snd (pbind m f k)))) = Some e \<and>
        clean (butlast (log (snd (pbind m f k))))
    | _ \<Rightarrow> clean (log (snd (pbind m f k)))"
  proof (cases "fst (m k)")
    case (Inl e)
    then have "pbind m f k = (Inl e, snd (m k))" by (rule pbind_Inl)
    with m k Inl show ?thesis by (auto simp: propagates_def split: exn.splits)
  next
    case (Inr a)
    then have eq: "pbind m f k = f a (snd (m k))" by (rule pbind_Inr)
    from m k Inr have "clean (log (snd (m k)))" by (auto simp: propagates_def)
    with f[of a] show ?thesis unfolding eq propagates_def by blast
  qed
qed

lemma propagates_then: "propagates m \<Longrightarrow> propagates m' \<Longrightarrow> propagates (pthen m m')"
  unfolding pthen_def by (rule propagates_bind)

lemma propagates_bind_triple:
  "propagates m \<Longrightarrow> (\<And>x y z. propagates (f x y z)) \<Longrightarrow>
   propagates (pbind m (\<lambda>(x, y, z). f x y z))"
  by (rule propagates_bind) (auto split: prod.splits)

lemma notebook_propagates: "propagates (notebook pf)"
  unfolding notebook_def cell_defs potentials_def list.map fst_conv for_each.simps
  by (intro propagates_bind_triple propagates_bind propagates_then propagates_invoke
      propagates_lift propagates_ret allI)

text \<open>
  C4: the notebook handles no exception and retries no call. In every run every call
  but the last has returned; and a call that raised is the last call of the run, and its
  exception is the result of the notebook.
\<close>
theorem exception_ends_run:
  "(\<forall>e. result (pf :: ('s, 'e) platform) s = Inl (PlatformError e) \<longrightarrow>
        log (final pf s) \<noteq> [] \<and> snd (last (log (final pf s))) = Some e)
   \<and> (\<forall>c e. (c, Some e) \<in> set (log (final pf s)) \<longrightarrow>
        result pf s = Inl (PlatformError e) \<and> last (log (final pf s)) = (c, Some e))
   \<and> clean (butlast (log (final pf s)))"
proof -
  have "clean (log (start s :: ('s, 'e) kstate))" by (simp add: clean_def start_def)
  with notebook_propagates[of pf]
  have h: "case result pf s of
      Inl (PlatformError e) \<Rightarrow>
        log (final pf s) \<noteq> [] \<and> snd (last (log (final pf s))) = Some e \<and>
        clean (butlast (log (final pf s)))
    | _ \<Rightarrow> clean (log (final pf s))"
    unfolding propagates_def result_def final_def by blast
  have clean_no: "\<And>l c e. clean l \<Longrightarrow> (c, Some e) \<notin> set (l :: (call \<times> 'e option) list)"
    by (auto simp: clean_def list_all_iff)
  have clean_butlast: "\<And>l :: (call \<times> 'e option) list. clean l \<Longrightarrow> clean (butlast l)"
    by (auto simp: clean_def list_all_iff dest: in_set_butlastD)
  have quiet: "clean (log (final pf s)) \<Longrightarrow> (\<forall>e. result pf s \<noteq> Inl (PlatformError e)) \<Longrightarrow>
      ?thesis"
  proof -
    assume cl: "clean (log (final pf s))" and ne: "\<forall>e. result pf s \<noteq> Inl (PlatformError e)"
    have 1: "\<forall>e. result pf s = Inl (PlatformError e) \<longrightarrow>
        log (final pf s) \<noteq> [] \<and> snd (last (log (final pf s))) = Some e"
      using ne by simp
    have 2: "\<forall>c e. (c, Some e) \<in> set (log (final pf s)) \<longrightarrow>
        result pf s = Inl (PlatformError e) \<and> last (log (final pf s)) = (c, Some e)"
      using clean_no[OF cl] by simp
    have 3: "clean (butlast (log (final pf s)))"
      using cl by (rule clean_butlast)
    from 1 2 3 show ?thesis by (intro conjI)
  qed
  show ?thesis
  proof (cases "result pf s")
    case (Inr a)
    with h have "clean (log (final pf s))" by simp
    then show ?thesis using Inr by (intro quiet) simp_all
  next
    case (Inl x)
    show ?thesis
    proof (cases x)
      case (PyError p)
      with Inl h have "clean (log (final pf s))" by simp
      then show ?thesis using Inl PyError by (intro quiet) simp_all
    next
      case (PlatformError e)
      with Inl h have ne: "log (final pf s) \<noteq> []"
        and la: "snd (last (log (final pf s))) = Some e"
        and cl: "clean (butlast (log (final pf s)))" by simp_all
      have only: "(c, Some e') \<in> set (log (final pf s)) \<Longrightarrow>
          e' = e \<and> last (log (final pf s)) = (c, Some e')" for c e'
      proof -
        assume "(c, Some e') \<in> set (log (final pf s))"
        then have "(c, Some e') \<in> set (butlast (log (final pf s)) @ [last (log (final pf s))])"
          using ne by simp
        then have "(c, Some e') \<in> set (butlast (log (final pf s))) \<or>
            (c, Some e') = last (log (final pf s))"
          by auto
        with clean_no[OF cl, of c e'] have "last (log (final pf s)) = (c, Some e')" by simp
        with la show "e' = e \<and> last (log (final pf s)) = (c, Some e')" by simp
      qed
      have 1: "\<forall>e. result pf s = Inl (PlatformError e) \<longrightarrow>
          log (final pf s) \<noteq> [] \<and> snd (last (log (final pf s))) = Some e"
        using Inl PlatformError ne la by simp
      have 2: "\<forall>c e. (c, Some e) \<in> set (log (final pf s)) \<longrightarrow>
          result pf s = Inl (PlatformError e) \<and> last (log (final pf s)) = (c, Some e)"
        using only Inl PlatformError by simp
      from 1 2 cl show ?thesis by (intro conjI)
    qed
  qed
qed

lemma failing_run: "result failing_platform (0, 0) = Inl (PlatformError ''infeasible'')"
  by code_simp

text \<open>
  C4 on the platform whose \<^verbatim>\<open>solve\<close> raises: the notebook ends with that exception,
  and the call that raised it is the last one made.
\<close>
theorem exception_ends_run_witness:
  "result failing_platform (0, 0) = Inl (PlatformError ''infeasible'')
   \<and> log (final failing_platform (0, 0)) \<noteq> []
   \<and> snd (last (log (final failing_platform (0, 0)))) = Some ''infeasible''"
  using exception_ends_run[of failing_platform "(0, 0)"] failing_run by simp

subsection \<open>The baseline scenario\<close>

text \<open>
  Rules for \<open>keeps\<close>: a call keeps the data when the platform keeps to its frame
  and the call is not a changing method on \<^verbatim>\<open>base\<close>.
\<close>

lemma keeps_ret: "keeps data (ret a)"
  by (simp add: keeps_def ret_def)

lemma keeps_lift: "keeps data (lift r)"
  by (simp add: keeps_def lift_def)

lemma keeps_invoke:
  "frame_rule pf data \<Longrightarrow> \<not> (changes c \<and> receiver c = Some Base) \<Longrightarrow>
   keeps data (invoke pf c)"
  unfolding keeps_def frame_rule_def
  by (auto simp: invoke_def split: prod.splits sum.splits) (metis snd_conv)+

lemma keeps_bind:
  assumes "keeps data m" and "\<And>a. keeps data (f a)"
  shows "keeps data (pbind m f)"
  unfolding keeps_def
proof
  fix k :: "('a, 'c) kstate"
  show "data (plat (snd (pbind m f k))) = data (plat k)"
  proof (cases "fst (m k)")
    case (Inl e)
    then have "pbind m f k = (Inl e, snd (m k))" by (rule pbind_Inl)
    with assms(1) show ?thesis by (simp add: keeps_def)
  next
    case (Inr a)
    then have "pbind m f k = f a (snd (m k))" by (rule pbind_Inr)
    with assms(1) assms(2)[of a] show ?thesis by (simp add: keeps_def)
  qed
qed

lemma keeps_then: "keeps data m \<Longrightarrow> keeps data m' \<Longrightarrow> keeps data (pthen m m')"
  unfolding pthen_def by (rule keeps_bind)

lemma keeps_bind_triple:
  "keeps data m \<Longrightarrow> (\<And>x y z. keeps data (f x y z)) \<Longrightarrow>
   keeps data (pbind m (\<lambda>(x, y, z). f x y z))"
  by (rule keeps_bind) (auto split: prod.splits)

lemma notebook_keeps: "frame_rule pf data \<Longrightarrow> keeps data (notebook pf)"
  unfolding notebook_def cell_defs potentials_def list.map fst_conv for_each.simps
  by (intro keeps_bind_triple keeps_bind keeps_then keeps_invoke keeps_lift keeps_ret allI)
     (simp_all add: changes_def receiver_def method_of_def)

lemma scen_only_plan: "list_all (\<lambda>c. changes c \<longrightarrow> receiver c = Some Scen) plan"
  by (simp add: plan_def changes_def receiver_def method_of_def)

lemma on_base_plan: "filter on_base plan =
  [Scenario_init Mp ''Westeros Electrified'' ''baseline'',
   Clone Base ''Westeros Electrified'' ''fossil_resources''
     ''illustration of adding fossil resources'' False,
   Plots_init Base ''Westeros'' 700]"
  by (simp add: plan_def on_base_def receiver_def)

text \<open>
  C10: in every run, every call of a method that changes a scenario (check_out, add_set,
  add_par, commit, set_as_default, solve) is made on \<^verbatim>\<open>scen\<close>; the only calls that
  make or use \<^verbatim>\<open>base\<close> are its construction, the clone into the scenario
  fossil_resources with keep_solution=False, and the construction of its plots. So on a
  platform where only a changing method called on \<^verbatim>\<open>base\<close> alters the baseline's
  data, the data is the same after the run as before, also when the run is ended by an
  exception.
\<close>
theorem baseline_not_mutated:
  "list_all (\<lambda>c. changes c \<longrightarrow> receiver c = Some Scen) (calls (final pf s))
   \<and> prefix (filter on_base (calls (final pf s)))
        [Scenario_init Mp ''Westeros Electrified'' ''baseline'',
         Clone Base ''Westeros Electrified'' ''fossil_resources''
           ''illustration of adding fossil resources'' False,
         Plots_init Base ''Westeros'' 700]
   \<and> (frame_rule pf data \<longrightarrow> data (plat (final pf s)) = data s)"
proof -
  have "set (map shape (calls (final pf s))) \<subseteq> set plan"
    using run_prefix[of pf s] by (rule set_mono_prefix)
  with scen_only_plan
  have "list_all (\<lambda>c. changes c \<longrightarrow> receiver c = Some Scen) (map shape (calls (final pf s)))"
    unfolding list_all_iff by blast
  then have a: "list_all (\<lambda>c. changes c \<longrightarrow> receiver c = Some Scen) (calls (final pf s))"
    by (simp add: list_all_iff changes_shape receiver_shape)
  have "prefix (filter on_base (map shape (calls (final pf s)))) (filter on_base plan)"
    using run_prefix[of pf s] by (rule filter_mono_prefix)
  then have p: "prefix (map shape (filter on_base (calls (final pf s)))) (filter on_base plan)"
    by (simp add: filter_map o_def on_base_shape)
  then obtain zs where zs: "filter on_base plan = map shape (filter on_base (calls (final pf s))) @ zs"
    by (auto simp: prefix_def)
  have "list_all (\<lambda>c. method_of c \<noteq> ''add_par'') (filter on_base plan)"
    unfolding on_base_plan by (simp add: method_of_def)
  then have "list_all (\<lambda>c. method_of c \<noteq> ''add_par'') (map shape (filter on_base (calls (final pf s))))"
    unfolding zs by simp
  then have "filter on_base (calls (final pf s)) = map shape (filter on_base (calls (final pf s)))"
    by (rule map_shape_plain) simp
  with p have b: "prefix (filter on_base (calls (final pf s))) (filter on_base plan)" by simp
  have c: "frame_rule pf data \<longrightarrow> data (plat (final pf s)) = data s"
  proof
    assume "frame_rule pf data"
    then have "keeps data (notebook pf)" by (rule notebook_keeps)
    then show "data (plat (final pf s)) = data s"
      by (simp add: keeps_def final_def start_def)
  qed
  from a b c show ?thesis by (simp add: on_base_plan)
qed

lemma sample_frame_rule: "frame_rule sample_platform fst"
  by (simp add: frame_rule_def sample_platform_def sample_next_def)

text \<open>
  C10 on the sample platform, which counts the changes made through \<^verbatim>\<open>base\<close>: none.
\<close>
theorem baseline_not_mutated_witness:
  "fst (plat (final sample_platform (0, 0))) = 0"
  using baseline_not_mutated[of sample_platform "(0, 0)" fst] sample_frame_rule by simp

subsection \<open>The submitted frames\<close>

lemma submitted_plan: "submitted plan =
  [(''resource_volume'', [''node'', ''commodity'', ''grade'', ''value'', ''unit'']),
   (''resource_cost'', [''node'', ''commodity'', ''grade'', ''year'', ''value'', ''unit'']),
   (''historical_extraction'', [''node'', ''commodity'', ''grade'', ''year'', ''value'', ''unit'']),
   (''resource_volume'', [''node'', ''commodity'', ''grade'', ''value'', ''unit'']),
   (''resource_cost'', [''node'', ''commodity'', ''grade'', ''year'', ''value'', ''unit'']),
   (''historical_extraction'', [''node'', ''commodity'', ''grade'', ''year'', ''value'', ''unit'']),
   (''input'', [''node_loc'', ''year_vtg'', ''year_act'', ''mode'', ''node_origin'',
                ''commodity'', ''time'', ''time_origin'', ''technology'', ''level'',
                ''value'', ''unit''])]"
  by (simp add: plan_def submitted_def List.map_filter_simps header_def)

text \<open>
  C2, as stated, fails: on the sample platform a submitted frame (that of
  \<^verbatim>\<open>input\<close>) has columns outside node, commodity, grade, year, value, unit.
\<close>
theorem input_frame_has_other_columns:
  "\<not> columns_ok (submitted (calls (final sample_platform (0, 0))))"
  by code_simp

text \<open>
  C2, amended: the parameters a run submits are an initial part (all, when the run
  completes) of: for grade a and then grade b, resource_volume with the columns node,
  commodity, grade, value, unit, and resource_cost and historical_extraction with node,
  commodity, grade, year, value, unit; then input with the columns node_loc, year_vtg,
  year_act, mode, node_origin, commodity, time, time_origin, technology, level, value,
  unit. Every frame but that of input has its columns among node, commodity, grade,
  year, value, unit.
\<close>
theorem submitted_columns:
  "prefix (submitted (calls (final pf s))) (submitted plan)
   \<and> (returned (result pf s) \<longrightarrow> submitted (calls (final pf s)) = submitted plan)
   \<and> submitted plan =
      [(''resource_volume'', [''node'', ''commodity'', ''grade'', ''value'', ''unit'']),
       (''resource_cost'', [''node'', ''commodity'', ''grade'', ''year'', ''value'', ''unit'']),
       (''historical_extraction'',
          [''node'', ''commodity'', ''grade'', ''year'', ''value'', ''unit'']),
       (''resource_volume'', [''node'', ''commodity'', ''grade'', ''value'', ''unit'']),
       (''resource_cost'', [''node'', ''commodity'', ''grade'', ''year'', ''value'', ''unit'']),
       (''historical_extraction'',
          [''node'', ''commodity'', ''grade'', ''year'', ''value'', ''unit'']),
       (''input'', [''node_loc'', ''year_vtg'', ''year_act'', ''mode'', ''node_origin'',
                    ''commodity'', ''time'', ''time_origin'', ''technology'', ''level'',
                    ''value'', ''unit''])]
   \<and> columns_ok (filter (\<lambda>(name, cols). name \<noteq> ''input'') (submitted (calls (final pf s))))"
proof -
  have "prefix (submitted (map shape (calls (final pf s)))) (submitted plan)"
    unfolding submitted_def by (intro prefix_map_filter run_prefix)
  then have a: "prefix (submitted (calls (final pf s))) (submitted plan)"
    by (simp add: submitted_shape)
  have b: "returned (result pf s) \<longrightarrow> submitted (calls (final pf s)) = submitted plan"
    using run_complete[of pf s] submitted_shape[of "calls (final pf s)"] by auto
  have "prefix (filter (\<lambda>(name, cols). name \<noteq> ''input'') (submitted (calls (final pf s))))
          (filter (\<lambda>(name, cols). name \<noteq> ''input'') (submitted plan))"
    using a by (rule filter_mono_prefix)
  then have "set (filter (\<lambda>(name, cols). name \<noteq> ''input'') (submitted (calls (final pf s))))
      \<subseteq> set (filter (\<lambda>(name, cols). name \<noteq> ''input'') (submitted plan))"
    by (rule set_mono_prefix)
  moreover have "columns_ok (filter (\<lambda>(name, cols). name \<noteq> ''input'') (submitted plan))"
    unfolding submitted_plan by (simp add: columns_ok_def record_columns_def)
  ultimately have c: "columns_ok
      (filter (\<lambda>(name, cols). name \<noteq> ''input'') (submitted (calls (final pf s))))"
    unfolding columns_ok_def list_all_iff by blast
  from a b submitted_plan c show ?thesis by (intro conjI)
qed

text \<open>C2, amended, on the sample platform: the seven parameters and their columns.\<close>
theorem submitted_columns_witness:
  "submitted (calls (final sample_platform (0, 0))) =
      [(''resource_volume'', [''node'', ''commodity'', ''grade'', ''value'', ''unit'']),
       (''resource_cost'', [''node'', ''commodity'', ''grade'', ''year'', ''value'', ''unit'']),
       (''historical_extraction'',
          [''node'', ''commodity'', ''grade'', ''year'', ''value'', ''unit'']),
       (''resource_volume'', [''node'', ''commodity'', ''grade'', ''value'', ''unit'']),
       (''resource_cost'', [''node'', ''commodity'', ''grade'', ''year'', ''value'', ''unit'']),
       (''historical_extraction'',
          [''node'', ''commodity'', ''grade'', ''year'', ''value'', ''unit'']),
       (''input'', [''node_loc'', ''year_vtg'', ''year_act'', ''mode'', ''node_origin'',
                    ''commodity'', ''time'', ''time_origin'', ''technology'', ''level'',
                    ''value'', ''unit''])]"
  using submitted_columns[of sample_platform "(0, 0)"] sample_run_returns by simp

subsection \<open>The input frame\<close>

text \<open>
  C9: the frame \<^verbatim>\<open>make_df\<close> builds for \<^verbatim>\<open>input\<close> has, in every row, commodity
  coal (where \<^verbatim>\<open>base_input\<close> has electricity), level resource, value 1, unit %
  and technology coal_ppl; its columns node_loc, year_vtg, year_act, mode, node_origin,
  time and time_origin are those of \<^verbatim>\<open>base_input\<close>, a scalar repeated for each row;
  and cell 13 submits this frame. When the two year series differ in length pandas
  raises and nothing is submitted.
\<close>
theorem input_frame_overrides:
  "input_df vy ay =
     (if length ay = length vy then
        Inr [(''node_loc'', replicate (length vy) (PStr ''Westeros'')),
             (''year_vtg'', vy),
             (''year_act'', ay),
             (''mode'', replicate (length vy) (PStr ''standard'')),
             (''node_origin'', replicate (length vy) (PStr ''Westeros'')),
             (''commodity'', replicate (length vy) (PStr ''coal'')),
             (''time'', replicate (length vy) (PStr ''year'')),
             (''time_origin'', replicate (length vy) (PStr ''year'')),
             (''technology'', replicate (length vy) (PStr ''coal_ppl'')),
             (''level'', replicate (length vy) (PStr ''resource'')),
             (''value'', replicate (length vy) (PInt 1)),
             (''unit'', replicate (length vy) (PStr ''%''))]
      else Inl ValueError)
   \<and> dict_get (base_input vy ay) ''commodity'' = Inr (Scalar (PStr ''electricity''))
   \<and> (\<forall>df. input_df vy ay = Inr df \<longrightarrow>
        map (map_of df)
          [''node_loc'', ''year_vtg'', ''year_act'', ''mode'', ''node_origin'', ''time'',
           ''time_origin'']
        = map (\<lambda>k. map_option (broadcast (length vy)) (map_of (base_input vy ay) k))
          [''node_loc'', ''year_vtg'', ''year_act'', ''mode'', ''node_origin'', ''time'',
           ''time_origin'']
        \<and> calls (snd (cell13 pf vy ay k)) = calls k @ [Add_par Scen ''input'' df])"
proof -
  have b: "dict_get (base_input vy ay) ''commodity'' = Inr (Scalar (PStr ''electricity''))"
    by (simp add: dict_get_def base_input_def)
  have c: "\<forall>df. input_df vy ay = Inr df \<longrightarrow>
        map (map_of df)
          [''node_loc'', ''year_vtg'', ''year_act'', ''mode'', ''node_origin'', ''time'',
           ''time_origin'']
        = map (\<lambda>k. map_option (broadcast (length vy)) (map_of (base_input vy ay) k))
          [''node_loc'', ''year_vtg'', ''year_act'', ''mode'', ''node_origin'', ''time'',
           ''time_origin'']
        \<and> calls (snd (cell13 pf vy ay k)) = calls k @ [Add_par Scen ''input'' df]"
  proof (intro allI impI conjI)
    fix df assume df: "input_df vy ay = Inr df"
    then show "map (map_of df)
          [''node_loc'', ''year_vtg'', ''year_act'', ''mode'', ''node_origin'', ''time'',
           ''time_origin'']
        = map (\<lambda>k. map_option (broadcast (length vy)) (map_of (base_input vy ay) k))
          [''node_loc'', ''year_vtg'', ''year_act'', ''mode'', ''node_origin'', ''time'',
           ''time_origin'']"
      by (auto simp: input_df_eq base_input_def broadcast_def country_def split: if_splits)
    have "cell13 pf vy ay k = invoke pf (Add_par Scen ''input'' df) k"
      by (simp add: cell13_def df pbind_def lift_def)
    then show "calls (snd (cell13 pf vy ay k)) = calls k @ [Add_par Scen ''input'' df]"
      by (simp add: calls_invoke)
  qed
  from input_df_eq[of vy ay] b c show ?thesis by (intro conjI)
qed

text \<open>C9 at three pairs of vintage and activity years.\<close>
theorem input_frame_overrides_witness:
  "input_df [PInt 700, PInt 700, PInt 710] [PInt 700, PInt 710, PInt 710] =
     Inr [(''node_loc'', [PStr ''Westeros'', PStr ''Westeros'', PStr ''Westeros'']),
          (''year_vtg'', [PInt 700, PInt 700, PInt 710]),
          (''year_act'', [PInt 700, PInt 710, PInt 710]),
          (''mode'', [PStr ''standard'', PStr ''standard'', PStr ''standard'']),
          (''node_origin'', [PStr ''Westeros'', PStr ''Westeros'', PStr ''Westeros'']),
          (''commodity'', [PStr ''coal'', PStr ''coal'', PStr ''coal'']),
          (''time'', [PStr ''year'', PStr ''year'', PStr ''year'']),
          (''time_origin'', [PStr ''year'', PStr ''year'', PStr ''year'']),
          (''technology'', [PStr ''coal_ppl'', PStr ''coal_ppl'', PStr ''coal_ppl'']),
          (''level'', [PStr ''resource'', PStr ''resource'', PStr ''resource'']),
          (''value'', [PInt 1, PInt 1, PInt 1]),
          (''unit'', [PStr ''%'', PStr ''%'', PStr ''%''])]
   \<and> calls (snd (cell13 sample_platform [PInt 700, PInt 700, PInt 710]
                [PInt 700, PInt 710, PInt 710] (start (0, 0)))) =
       [Add_par Scen ''input''
         [(''node_loc'', [PStr ''Westeros'', PStr ''Westeros'', PStr ''Westeros'']),
          (''year_vtg'', [PInt 700, PInt 700, PInt 710]),
          (''year_act'', [PInt 700, PInt 710, PInt 710]),
          (''mode'', [PStr ''standard'', PStr ''standard'', PStr ''standard'']),
          (''node_origin'', [PStr ''Westeros'', PStr ''Westeros'', PStr ''Westeros'']),
          (''commodity'', [PStr ''coal'', PStr ''coal'', PStr ''coal'']),
          (''time'', [PStr ''year'', PStr ''year'', PStr ''year'']),
          (''time_origin'', [PStr ''year'', PStr ''year'', PStr ''year'']),
          (''technology'', [PStr ''coal_ppl'', PStr ''coal_ppl'', PStr ''coal_ppl'']),
          (''level'', [PStr ''resource'', PStr ''resource'', PStr ''resource'']),
          (''value'', [PInt 1, PInt 1, PInt 1]),
          (''unit'', [PStr ''%'', PStr ''%'', PStr ''%''])]]"
proof -
  let ?vy = "[PInt 700, PInt 700, PInt 710]" and ?ay = "[PInt 700, PInt 710, PInt 710]"
  have t: "input_df ?vy ?ay =
     (if length ?ay = length ?vy then
        Inr [(''node_loc'', replicate (length ?vy) (PStr ''Westeros'')),
             (''year_vtg'', ?vy),
             (''year_act'', ?ay),
             (''mode'', replicate (length ?vy) (PStr ''standard'')),
             (''node_origin'', replicate (length ?vy) (PStr ''Westeros'')),
             (''commodity'', replicate (length ?vy) (PStr ''coal'')),
             (''time'', replicate (length ?vy) (PStr ''year'')),
             (''time_origin'', replicate (length ?vy) (PStr ''year'')),
             (''technology'', replicate (length ?vy) (PStr ''coal_ppl'')),
             (''level'', replicate (length ?vy) (PStr ''resource'')),
             (''value'', replicate (length ?vy) (PInt 1)),
             (''unit'', replicate (length ?vy) (PStr ''%''))]
      else Inl ValueError)"
    by (rule input_frame_overrides[of ?vy ?ay sample_platform "start (0, 0)", THEN conjunct1])
  have u: "\<forall>df. input_df ?vy ?ay = Inr df \<longrightarrow>
        map (map_of df)
          [''node_loc'', ''year_vtg'', ''year_act'', ''mode'', ''node_origin'', ''time'',
           ''time_origin'']
        = map (\<lambda>k. map_option (broadcast (length ?vy)) (map_of (base_input ?vy ?ay) k))
          [''node_loc'', ''year_vtg'', ''year_act'', ''mode'', ''node_origin'', ''time'',
           ''time_origin'']
        \<and> calls (snd (cell13 sample_platform ?vy ?ay (start (0, 0)))) =
            calls (start (0, 0) :: (nat \<times> nat, string) kstate) @ [Add_par Scen ''input'' df]"
    by (rule input_frame_overrides[of ?vy ?ay sample_platform "start (0, 0)",
          THEN conjunct2, THEN conjunct2])
  from t have v: "input_df ?vy ?ay =
     Inr [(''node_loc'', [PStr ''Westeros'', PStr ''Westeros'', PStr ''Westeros'']),
          (''year_vtg'', [PInt 700, PInt 700, PInt 710]),
          (''year_act'', [PInt 700, PInt 710, PInt 710]),
          (''mode'', [PStr ''standard'', PStr ''standard'', PStr ''standard'']),
          (''node_origin'', [PStr ''Westeros'', PStr ''Westeros'', PStr ''Westeros'']),
          (''commodity'', [PStr ''coal'', PStr ''coal'', PStr ''coal'']),
          (''time'', [PStr ''year'', PStr ''year'', PStr ''year'']),
          (''time_origin'', [PStr ''year'', PStr ''year'', PStr ''year'']),
          (''technology'', [PStr ''coal_ppl'', PStr ''coal_ppl'', PStr ''coal_ppl'']),
          (''level'', [PStr ''resource'', PStr ''resource'', PStr ''resource'']),
          (''value'', [PInt 1, PInt 1, PInt 1]),
          (''unit'', [PStr ''%'', PStr ''%'', PStr ''%''])]"
    by (simp add: numeral_3_eq_3)
  from u[rule_format, OF v] v show ?thesis by (simp add: calls_start)
qed

end
